theory Spec2Isabelle
  imports Main "HOL-Library.Word" "HOL-Library.Signed_Division"
begin

unbundle bit_operations_syntax

section \<open>The ST7789 panel driver: data model\<close>

text \<open>
  The driver of \<^verbatim>\<open>esp_lcd_panel_st7789.c\<close> is embedded function by function. C's
  \<^verbatim>\<open>int\<close> is a 32-bit word read in two's complement (\<open>+\<close>, \<open>-\<close> and \<open>*\<close> wrap around),
  \<^verbatim>\<open>uint8_t\<close> is an 8-bit word and \<^verbatim>\<open>size_t\<close> a 32-bit word, as on the 32-bit targets of
  the framework. Every call of a collaborator (heap, GPIO driver, task delay, bus
  transport) is recorded as an event appended to a trace; what a collaborator returns
  is decided by an environment that sees the trace so far and the call.
\<close>

type_synonym c_int = "32 word"
type_synonym uint8_t = "8 word"
type_synonym size_t = "32 word"

text \<open>
  Result codes of type \<^verbatim>\<open>esp_err_t\<close>. The driver itself produces \<open>ESP_OK\<close>,
  \<open>ESP_ERR_NO_MEM\<close>, \<open>ESP_ERR_INVALID_ARG\<close> and \<open>ESP_ERR_NOT_SUPPORTED\<close>; the collaborators
  may return any code, the remaining ones being \<open>ESP_FAIL\<close> and \<open>ESP_ERR_OTHER n\<close>.
\<close>

datatype esp_err_t =
    ESP_OK
  | ESP_FAIL
  | ESP_ERR_NO_MEM
  | ESP_ERR_INVALID_ARG
  | ESP_ERR_NOT_SUPPORTED
  | ESP_ERR_OTHER nat

text \<open>An I/O handle is a pointer; \<open>0\<close> is \<^verbatim>\<open>NULL\<close>.\<close>

type_synonym esp_lcd_panel_io_handle_t = nat

datatype event =
    Calloc
  | Free
  | Gpio_config_output "64 word"
  | Gpio_reset_pin c_int
  | Gpio_set_level c_int bool
  | Task_delay_ms nat
  | Io_tx_param esp_lcd_panel_io_handle_t int "uint8_t list"
  | Io_tx_color esp_lcd_panel_io_handle_t int "uint8_t list" size_t

type_synonym env = "event list \<Rightarrow> event \<Rightarrow> esp_err_t"

text \<open>A collaborator call whose result the driver reads.\<close>

definition collab :: "env \<Rightarrow> event \<Rightarrow> event list \<Rightarrow> esp_err_t \<times> event list" where
  "collab en ev tr = (en tr ev, tr @ [ev])"

definition esp_lcd_panel_io_tx_param ::
  "env \<Rightarrow> esp_lcd_panel_io_handle_t \<Rightarrow> int \<Rightarrow> uint8_t list \<Rightarrow> event list \<Rightarrow> esp_err_t \<times> event list" where
  "esp_lcd_panel_io_tx_param en h cmd params tr = collab en (Io_tx_param h cmd params) tr"

definition esp_lcd_panel_io_tx_color ::
  "env \<Rightarrow> esp_lcd_panel_io_handle_t \<Rightarrow> int \<Rightarrow> uint8_t list \<Rightarrow> size_t \<Rightarrow> event list \<Rightarrow> esp_err_t \<times> event list" where
  "esp_lcd_panel_io_tx_color en h cmd color_data len tr = collab en (Io_tx_color h cmd color_data len) tr"

text \<open>\<^verbatim>\<open>vTaskDelay(pdMS_TO_TICKS(ms))\<close>: only the number of milliseconds is recorded.\<close>

definition vTaskDelay_ms :: "nat \<Rightarrow> event list \<Rightarrow> event list" where
  "vTaskDelay_ms ms tr = tr @ [Task_delay_ms ms]"

subsection \<open>Controller command codes and flag bits\<close>

text \<open>Modelled from the spec: the header \<^verbatim>\<open>esp_lcd_panel_commands.h\<close> with the command
  codes is not part of the sources; the values are those of the on-wire command table.\<close>

definition LCD_CMD_SWRESET :: int where "LCD_CMD_SWRESET = 0x01"
definition LCD_CMD_SLPOUT :: int where "LCD_CMD_SLPOUT = 0x11"
definition LCD_CMD_INVOFF :: int where "LCD_CMD_INVOFF = 0x20"
definition LCD_CMD_INVON :: int where "LCD_CMD_INVON = 0x21"
definition LCD_CMD_DISPOFF :: int where "LCD_CMD_DISPOFF = 0x28"
definition LCD_CMD_DISPON :: int where "LCD_CMD_DISPON = 0x29"
definition LCD_CMD_CASET :: int where "LCD_CMD_CASET = 0x2A"
definition LCD_CMD_RASET :: int where "LCD_CMD_RASET = 0x2B"
definition LCD_CMD_RAMWR :: int where "LCD_CMD_RAMWR = 0x2C"
definition LCD_CMD_MADCTL :: int where "LCD_CMD_MADCTL = 0x36"
definition LCD_CMD_COLMOD :: int where "LCD_CMD_COLMOD = 0x3A"

text \<open>Modelled from the spec: the flag bits of the memory-access-control byte, from the
  same missing header: bit 3 is the BGR order, bit 5 swaps the axes, bit 6 mirrors X,
  bit 7 mirrors Y.\<close>

definition LCD_CMD_BGR_BIT :: uint8_t where "LCD_CMD_BGR_BIT = push_bit 3 1"
definition LCD_CMD_MV_BIT :: uint8_t where "LCD_CMD_MV_BIT = push_bit 5 1"
definition LCD_CMD_MX_BIT :: uint8_t where "LCD_CMD_MX_BIT = push_bit 6 1"
definition LCD_CMD_MY_BIT :: uint8_t where "LCD_CMD_MY_BIT = push_bit 7 1"

subsection \<open>The driver instance and the creation request\<close>

text \<open>\<^verbatim>\<open>st7789_panel_t\<close> without its \<^verbatim>\<open>base\<close> member, the table of function pointers
  that the creation fills with the nine operations below.\<close>

record st7789_panel_t =
  io :: esp_lcd_panel_io_handle_t
  reset_gpio_num :: c_int
  reset_level :: bool
  x_gap :: c_int
  y_gap :: c_int
  fb_bits_per_pixel :: uint8_t
  madctl_val :: uint8_t
  colmod_cal :: uint8_t

text \<open>The enumeration of colour orders; \<open>LCD_RGB_ENDIAN_other n\<close> stands for every value
  of the underlying integer type that is neither enumerator.\<close>

datatype lcd_rgb_endian_t =
    LCD_RGB_ENDIAN_RGB
  | LCD_RGB_ENDIAN_BGR
  | LCD_RGB_ENDIAN_other nat

text \<open>The fields of \<^verbatim>\<open>esp_lcd_panel_dev_config_t\<close> that the driver reads (the field
  \<^verbatim>\<open>reset_gpio_num\<close> is named \<open>cfg_reset_gpio_num\<close> here, apart from the instance's).\<close>

record esp_lcd_panel_dev_config_t =
  cfg_reset_gpio_num :: c_int
  rgb_endian :: lcd_rgb_endian_t
  bits_per_pixel :: "32 word"
  reset_active_high :: bool

section \<open>Orientation and gap operations\<close>

definition panel_st7789_mirror ::
  "env \<Rightarrow> st7789_panel_t \<Rightarrow> bool \<Rightarrow> bool \<Rightarrow> event list \<Rightarrow> esp_err_t \<times> st7789_panel_t \<times> event list" where
  "panel_st7789_mirror en st mirror_x mirror_y tr =
     (let st1 = (if mirror_x then st\<lparr>madctl_val := madctl_val st OR LCD_CMD_MX_BIT\<rparr>
                 else st\<lparr>madctl_val := madctl_val st AND NOT LCD_CMD_MX_BIT\<rparr>);
          st2 = (if mirror_y then st1\<lparr>madctl_val := madctl_val st1 OR LCD_CMD_MY_BIT\<rparr>
                 else st1\<lparr>madctl_val := madctl_val st1 AND NOT LCD_CMD_MY_BIT\<rparr>);
          (r, tr1) = esp_lcd_panel_io_tx_param en (io st2) LCD_CMD_MADCTL [madctl_val st2] tr
      in if r \<noteq> ESP_OK then (r, st2, tr1) else (ESP_OK, st2, tr1))"

definition panel_st7789_swap_xy ::
  "env \<Rightarrow> st7789_panel_t \<Rightarrow> bool \<Rightarrow> event list \<Rightarrow> esp_err_t \<times> st7789_panel_t \<times> event list" where
  "panel_st7789_swap_xy en st swap_axes tr =
     (let st1 = (if swap_axes then st\<lparr>madctl_val := madctl_val st OR LCD_CMD_MV_BIT\<rparr>
                 else st\<lparr>madctl_val := madctl_val st AND NOT LCD_CMD_MV_BIT\<rparr>);
          (r, tr1) = esp_lcd_panel_io_tx_param en (io st1) LCD_CMD_MADCTL [madctl_val st1] tr
      in if r \<noteq> ESP_OK then (r, st1, tr1) else (ESP_OK, st1, tr1))"

definition panel_st7789_set_gap ::
  "env \<Rightarrow> st7789_panel_t \<Rightarrow> c_int \<Rightarrow> c_int \<Rightarrow> event list \<Rightarrow> esp_err_t \<times> st7789_panel_t \<times> event list" where
  "panel_st7789_set_gap en st x_gap' y_gap' tr =
     (let st1 = st\<lparr>x_gap := x_gap'\<rparr>;
          st2 = st1\<lparr>y_gap := y_gap'\<rparr>
      in (ESP_OK, st2, tr))"

section \<open>Creation and deletion\<close>

text \<open>
  The macros of \<^verbatim>\<open>esp_check.h\<close> are written out: \<^verbatim>\<open>ESP_GOTO_ON_FALSE(c, code, err, ...)\<close>
  sets \<^verbatim>\<open>ret = code\<close> and jumps to \<^verbatim>\<open>err\<close> when \<^verbatim>\<open>c\<close> is false,
  \<^verbatim>\<open>ESP_GOTO_ON_ERROR(x, err, ...)\<close> does so with the result of \<^verbatim>\<open>x\<close> when it is not
  \<open>ESP_OK\<close>, and \<^verbatim>\<open>ESP_RETURN_ON_ERROR(x, ...)\<close> returns the result of \<^verbatim>\<open>x\<close> when it is
  not \<open>ESP_OK\<close>.

  \<^verbatim>\<open>calloc\<close> gives a zeroed instance; it returns a non-null pointer exactly when the
  environment answers \<open>ESP_OK\<close> to the event \<open>Calloc\<close>.
\<close>

definition calloc_st7789 :: st7789_panel_t where
  "calloc_st7789 =
     \<lparr>io = 0, reset_gpio_num = 0, reset_level = False, x_gap = 0, y_gap = 0,
      fb_bits_per_pixel = 0, madctl_val = 0, colmod_cal = 0\<rparr>"

text \<open>The code after the label \<^verbatim>\<open>err\<close>: \<open>allocated\<close> says whether \<^verbatim>\<open>st7789\<close> is non-null,
  \<open>pin\<close> is \<^verbatim>\<open>panel_dev_config->reset_gpio_num\<close> (read only when \<open>allocated\<close>). The second
  component of the result is what has been stored in \<^verbatim>\<open>*ret_panel\<close>: nothing.\<close>

definition new_panel_err ::
  "esp_err_t \<Rightarrow> bool \<Rightarrow> c_int \<Rightarrow> event list \<Rightarrow> esp_err_t \<times> st7789_panel_t option \<times> event list" where
  "new_panel_err ret allocated pin tr =
     (if allocated then
        (let tr1 = (if 0 \<le>s pin then tr @ [Gpio_reset_pin pin] else tr)
         in (ret, None, tr1 @ [Free]))
      else (ret, None, tr))"

text \<open>Lines 102 to 118: the remaining fields are stored and the handle is returned.\<close>

definition new_panel_finish ::
  "esp_lcd_panel_io_handle_t \<Rightarrow> esp_lcd_panel_dev_config_t \<Rightarrow> st7789_panel_t \<Rightarrow> uint8_t \<Rightarrow> event list
     \<Rightarrow> esp_err_t \<times> st7789_panel_t option \<times> event list" where
  "new_panel_finish io_h cfg st fb tr =
     (ESP_OK,
      Some (st\<lparr>io := io_h, fb_bits_per_pixel := fb,
               reset_gpio_num := cfg_reset_gpio_num cfg,
               reset_level := reset_active_high cfg\<rparr>),
      tr)"

text \<open>The switch on \<^verbatim>\<open>bits_per_pixel\<close>.\<close>

definition new_panel_pixel_width ::
  "esp_lcd_panel_io_handle_t \<Rightarrow> esp_lcd_panel_dev_config_t \<Rightarrow> st7789_panel_t \<Rightarrow> event list
     \<Rightarrow> esp_err_t \<times> st7789_panel_t option \<times> event list" where
  "new_panel_pixel_width io_h cfg st tr =
     (if bits_per_pixel cfg = 16 then new_panel_finish io_h cfg (st\<lparr>colmod_cal := 0x55\<rparr>) 16 tr
      else if bits_per_pixel cfg = 18 then new_panel_finish io_h cfg (st\<lparr>colmod_cal := 0x66\<rparr>) 24 tr
      else new_panel_err ESP_ERR_NOT_SUPPORTED True (cfg_reset_gpio_num cfg) tr)"

text \<open>The switch on \<^verbatim>\<open>rgb_endian\<close>.\<close>

definition new_panel_color_space ::
  "esp_lcd_panel_io_handle_t \<Rightarrow> esp_lcd_panel_dev_config_t \<Rightarrow> st7789_panel_t \<Rightarrow> event list
     \<Rightarrow> esp_err_t \<times> st7789_panel_t option \<times> event list" where
  "new_panel_color_space io_h cfg st tr =
     (case rgb_endian cfg of
        LCD_RGB_ENDIAN_RGB \<Rightarrow> new_panel_pixel_width io_h cfg (st\<lparr>madctl_val := 0\<rparr>) tr
      | LCD_RGB_ENDIAN_BGR \<Rightarrow>
          new_panel_pixel_width io_h cfg (st\<lparr>madctl_val := madctl_val st OR LCD_CMD_BGR_BIT\<rparr>) tr
      | LCD_RGB_ENDIAN_other v \<Rightarrow>
          new_panel_err ESP_ERR_NOT_SUPPORTED True (cfg_reset_gpio_num cfg) tr)"

text \<open>The reset line is configured as an output, when there is one.\<close>

definition new_panel_reset_line ::
  "env \<Rightarrow> esp_lcd_panel_io_handle_t \<Rightarrow> esp_lcd_panel_dev_config_t \<Rightarrow> st7789_panel_t \<Rightarrow> event list
     \<Rightarrow> esp_err_t \<times> st7789_panel_t option \<times> event list" where
  "new_panel_reset_line en io_h cfg st tr =
     (if 0 \<le>s cfg_reset_gpio_num cfg then
        (let (g, tr1) = collab en (Gpio_config_output (push_bit (unat (cfg_reset_gpio_num cfg)) 1)) tr
         in if g = ESP_OK then new_panel_color_space io_h cfg st tr1
            else new_panel_err g True (cfg_reset_gpio_num cfg) tr1)
      else new_panel_color_space io_h cfg st tr)"

text \<open>The creation. \<open>io_h\<close> is the transport handle, \<open>panel_dev_config\<close> is \<open>None\<close> for a
  null pointer, \<open>ret_panel\<close> says whether the pointer for the result is non-null.\<close>

definition esp_lcd_new_panel_st7789 ::
  "env \<Rightarrow> esp_lcd_panel_io_handle_t \<Rightarrow> esp_lcd_panel_dev_config_t option \<Rightarrow> bool \<Rightarrow> event list
     \<Rightarrow> esp_err_t \<times> st7789_panel_t option \<times> event list" where
  "esp_lcd_new_panel_st7789 en io_h panel_dev_config ret_panel tr =
     (case panel_dev_config of
        None \<Rightarrow> new_panel_err ESP_ERR_INVALID_ARG False 0 tr
      | Some cfg \<Rightarrow>
          if io_h \<noteq> 0 \<and> ret_panel then
            (let (a, tr1) = collab en Calloc tr
             in if a = ESP_OK then new_panel_reset_line en io_h cfg calloc_st7789 tr1
                else new_panel_err ESP_ERR_NO_MEM False 0 tr1)
          else new_panel_err ESP_ERR_INVALID_ARG False 0 tr)"

definition panel_st7789_del :: "env \<Rightarrow> st7789_panel_t \<Rightarrow> event list \<Rightarrow> esp_err_t \<times> event list" where
  "panel_st7789_del en st tr =
     (let tr1 = (if 0 \<le>s reset_gpio_num st then tr @ [Gpio_reset_pin (reset_gpio_num st)] else tr)
      in (ESP_OK, tr1 @ [Free]))"

section \<open>Reset and initialisation\<close>

definition panel_st7789_reset :: "env \<Rightarrow> st7789_panel_t \<Rightarrow> event list \<Rightarrow> esp_err_t \<times> event list" where
  "panel_st7789_reset en st tr =
     (if 0 \<le>s reset_gpio_num st then
        (let tr1 = tr @ [Gpio_set_level (reset_gpio_num st) (reset_level st)];
             tr2 = vTaskDelay_ms 10 tr1;
             tr3 = tr2 @ [Gpio_set_level (reset_gpio_num st) (\<not> reset_level st)];
             tr4 = vTaskDelay_ms 10 tr3
         in (ESP_OK, tr4))
      else
        (let (r, tr1) = esp_lcd_panel_io_tx_param en (io st) LCD_CMD_SWRESET [] tr
         in if r \<noteq> ESP_OK then (r, tr1)
            else (ESP_OK, vTaskDelay_ms 20 tr1)))"

text \<open>The gamma table that the preprocessor selects (\<^verbatim>\<open>ANALOG_GAMMA\<close> defined,
  \<^verbatim>\<open>GAMMA_CURVE\<close> not): the same 14 bytes for the commands \<open>0xE0\<close> and \<open>0xE1\<close>.\<close>

definition gamma_high_contrast :: "uint8_t list" where
  "gamma_high_contrast =
     [0xf0, 0x04, 0x08, 0x06, 0x08, 0x28, 0x40, 0x43, 0x60, 0x1e, 0x1c, 0x18, 0x35, 0x36]"

definition panel_st7789_init :: "env \<Rightarrow> st7789_panel_t \<Rightarrow> event list \<Rightarrow> esp_err_t \<times> event list" where
  "panel_st7789_init en st tr =
     (let (r1, tr1) = esp_lcd_panel_io_tx_param en (io st) LCD_CMD_SLPOUT [] tr
      in if r1 \<noteq> ESP_OK then (r1, tr1)
         else
           (let tr2 = vTaskDelay_ms 100 tr1;
                (r2, tr3) = esp_lcd_panel_io_tx_param en (io st) LCD_CMD_MADCTL [madctl_val st] tr2
            in if r2 \<noteq> ESP_OK then (r2, tr3)
               else
                 (let (r3, tr4) = esp_lcd_panel_io_tx_param en (io st) LCD_CMD_COLMOD [colmod_cal st] tr3
                  in if r3 \<noteq> ESP_OK then (r3, tr4)
                     else
                       (let (g1, tr5) = esp_lcd_panel_io_tx_param en (io st) 0xE0 gamma_high_contrast tr4;
                            (g2, tr6) = esp_lcd_panel_io_tx_param en (io st) 0xE1 gamma_high_contrast tr5
                        in (ESP_OK, tr6)))))"

section \<open>Drawing\<close>

text \<open>\<^verbatim>\<open>/\<close> on \<^verbatim>\<open>int\<close> truncates towards zero; \<^verbatim>\<open>>>\<close> on \<^verbatim>\<open>int\<close> is the arithmetic shift.\<close>

definition c_div :: "c_int \<Rightarrow> c_int \<Rightarrow> c_int" where
  "c_div a b = word_of_int (sint a sdiv sint b)"

text \<open>An operation returns a code, or its \<^verbatim>\<open>assert\<close> stops the program.\<close>

datatype call_result = Returns esp_err_t | Assert_failed

definition panel_st7789_draw_bitmap ::
  "env \<Rightarrow> st7789_panel_t \<Rightarrow> c_int \<Rightarrow> c_int \<Rightarrow> c_int \<Rightarrow> c_int \<Rightarrow> uint8_t list \<Rightarrow> event list
     \<Rightarrow> call_result \<times> event list" where
  "panel_st7789_draw_bitmap en st x_start y_start x_end y_end color_data tr =
     (if x_start <s x_end \<and> y_start <s y_end then
        (let x_start1 = x_start + x_gap st;
             x_end1 = x_end + x_gap st;
             y_start1 = y_start + y_gap st;
             y_end1 = y_end + y_gap st;
             (r1, tr1) = esp_lcd_panel_io_tx_param en (io st) LCD_CMD_CASET
                 [ucast (signed_drop_bit 8 x_start1 AND 0xFF),
                  ucast (x_start1 AND 0xFF),
                  ucast (signed_drop_bit 8 (x_end1 - 1) AND 0xFF),
                  ucast ((x_end1 - 1) AND 0xFF)] tr
         in if r1 \<noteq> ESP_OK then (Returns r1, tr1)
            else
              (let (r2, tr2) = esp_lcd_panel_io_tx_param en (io st) LCD_CMD_RASET
                     [ucast (signed_drop_bit 8 y_start1 AND 0xFF),
                      ucast (y_start1 AND 0xFF),
                      ucast (signed_drop_bit 8 (y_end1 - 1) AND 0xFF),
                      ucast ((y_end1 - 1) AND 0xFF)] tr1
               in if r2 \<noteq> ESP_OK then (Returns r2, tr2)
                  else
                    (let len = c_div ((x_end1 - x_start1) * (y_end1 - y_start1)
                                        * ucast (fb_bits_per_pixel st)) 8;
                         (r3, tr3) = esp_lcd_panel_io_tx_color en (io st) LCD_CMD_RAMWR color_data len tr2
                     in if r3 \<noteq> ESP_OK then (Returns r3, tr3)
                        else (Returns ESP_OK, tr3))))
      else (Assert_failed, tr))"

section \<open>Inversion and display switch\<close>

definition panel_st7789_invert_color ::
  "env \<Rightarrow> st7789_panel_t \<Rightarrow> bool \<Rightarrow> event list \<Rightarrow> esp_err_t \<times> event list" where
  "panel_st7789_invert_color en st invert_color_data tr =
     (let command = (if invert_color_data then LCD_CMD_INVON else LCD_CMD_INVOFF);
          (r, tr1) = esp_lcd_panel_io_tx_param en (io st) command [] tr
      in if r \<noteq> ESP_OK then (r, tr1) else (ESP_OK, tr1))"

definition panel_st7789_disp_on_off ::
  "env \<Rightarrow> st7789_panel_t \<Rightarrow> bool \<Rightarrow> event list \<Rightarrow> esp_err_t \<times> event list" where
  "panel_st7789_disp_on_off en st on_off tr =
     (let command = (if on_off then LCD_CMD_DISPON else LCD_CMD_DISPOFF);
          (r, tr1) = esp_lcd_panel_io_tx_param en (io st) command [] tr
      in if r \<noteq> ESP_OK then (r, tr1) else (ESP_OK, tr1))"

section \<open>Sequences of calls on one instance\<close>

text \<open>A caller that owns the instance issues the operations one after the other,
  whatever code each returns; a failed \<^verbatim>\<open>assert\<close> stops the program (\<open>None\<close>).\<close>

datatype panel_call =
    Reset
  | Init
  | Draw_bitmap c_int c_int c_int c_int "uint8_t list"
  | Invert_color bool
  | Mirror bool bool
  | Swap_xy bool
  | Set_gap c_int c_int
  | Disp_on_off bool

fun panel_step ::
  "env \<Rightarrow> panel_call \<Rightarrow> st7789_panel_t \<times> event list \<Rightarrow> (st7789_panel_t \<times> event list) option" where
  "panel_step en Reset (st, tr) = Some (st, snd (panel_st7789_reset en st tr))"
| "panel_step en Init (st, tr) = Some (st, snd (panel_st7789_init en st tr))"
| "panel_step en (Draw_bitmap x_start y_start x_end y_end color_data) (st, tr) =
     (case panel_st7789_draw_bitmap en st x_start y_start x_end y_end color_data tr of
        (Assert_failed, tr1) \<Rightarrow> None
      | (Returns r, tr1) \<Rightarrow> Some (st, tr1))"
| "panel_step en (Invert_color b) (st, tr) = Some (st, snd (panel_st7789_invert_color en st b tr))"
| "panel_step en (Mirror mirror_x mirror_y) (st, tr) =
     Some (snd (panel_st7789_mirror en st mirror_x mirror_y tr))"
| "panel_step en (Swap_xy swap_axes) (st, tr) = Some (snd (panel_st7789_swap_xy en st swap_axes tr))"
| "panel_step en (Set_gap gx gy) (st, tr) = Some (snd (panel_st7789_set_gap en st gx gy tr))"
| "panel_step en (Disp_on_off b) (st, tr) = Some (st, snd (panel_st7789_disp_on_off en st b tr))"

fun panel_calls ::
  "env \<Rightarrow> panel_call list \<Rightarrow> st7789_panel_t \<times> event list \<Rightarrow> (st7789_panel_t \<times> event list) option" where
  "panel_calls en [] s = Some s"
| "panel_calls en (c # cs) s =
     (case panel_step en c s of None \<Rightarrow> None | Some s1 \<Rightarrow> panel_calls en cs s1)"

section \<open>Reading the wire\<close>

text \<open>
  The notions of the specification that the statements about drawing compare the code
  with; they are not part of the driver. The address commands carry each coordinate as
  a big-endian 16-bit number: the high byte, then the low byte, of its low 16 bits.
\<close>

definition be16_bytes :: "c_int \<Rightarrow> uint8_t list" where
  "be16_bytes v = [word_of_nat (unat v mod 65536 div 256), word_of_nat (unat v mod 256)]"

text \<open>The lengths of the pixel writes in a trace, in their order.\<close>

fun tx_color_lengths :: "event list \<Rightarrow> size_t list" where
  "tx_color_lengths [] = []"
| "tx_color_lengths (Io_tx_color h cmd color_data len # es) = len # tx_color_lengths es"
| "tx_color_lengths (e # es) = tx_color_lengths es"

section \<open>Three environments\<close>

text \<open>Collaborators that accept every call, that refuse every call, and that grant the
  allocation but refuse everything else.\<close>

definition env_accepts_all :: env where
  "env_accepts_all tr ev = ESP_OK"

definition env_refuses_all :: env where
  "env_refuses_all tr ev = ESP_FAIL"

definition env_allocates_only :: env where
  "env_allocates_only tr ev = (if ev = Calloc then ESP_OK else ESP_FAIL)"

section \<open>Properties of the orientation byte\<close>

lemma bit_MX: "bit LCD_CMD_MX_BIT n \<longleftrightarrow> n = 6"
  unfolding LCD_CMD_MX_BIT_def by (subst bit_push_bit_iff) (auto simp add: bit_1_iff)
lemma bit_MY: "bit LCD_CMD_MY_BIT n \<longleftrightarrow> n = 7"
  unfolding LCD_CMD_MY_BIT_def by (subst bit_push_bit_iff) (auto simp add: bit_1_iff)
lemma bit_MV: "bit LCD_CMD_MV_BIT n \<longleftrightarrow> n = 5"
  unfolding LCD_CMD_MV_BIT_def by (subst bit_push_bit_iff) (auto simp add: bit_1_iff)
lemma bit_BGR: "bit LCD_CMD_BGR_BIT n \<longleftrightarrow> n = 3"
  unfolding LCD_CMD_BGR_BIT_def by (subst bit_push_bit_iff) (auto simp add: bit_1_iff)

lemma mirror_madctl:
  "madctl_val (fst (snd (panel_st7789_mirror en st mx my tr))) =
     (let m1 = (if mx then madctl_val st OR LCD_CMD_MX_BIT else madctl_val st AND NOT LCD_CMD_MX_BIT)
      in if my then m1 OR LCD_CMD_MY_BIT else m1 AND NOT LCD_CMD_MY_BIT)"
  by (simp add: panel_st7789_mirror_def Let_def split: prod.splits)

lemma swap_madctl:
  "madctl_val (fst (snd (panel_st7789_swap_xy en st sw tr))) =
     (if sw then madctl_val st OR LCD_CMD_MV_BIT else madctl_val st AND NOT LCD_CMD_MV_BIT)"
  by (simp add: panel_st7789_swap_xy_def Let_def split: prod.splits)

lemma mirror_bits:
  "bit (madctl_val (fst (snd (panel_st7789_mirror en st mx my tr)))) n =
     (if n = 6 then mx else if n = 7 then my else bit (madctl_val st) n)"
  by (auto simp add: mirror_madctl Let_def bit_and_iff bit_or_iff bit_not_iff bit_MX bit_MY dest: bit_imp_le_length)

lemma swap_bits:
  "bit (madctl_val (fst (snd (panel_st7789_swap_xy en st sw tr)))) n =
     (if n = 5 then sw else bit (madctl_val st) n)"
  by (auto simp add: swap_madctl Let_def bit_and_iff bit_or_iff bit_not_iff bit_MV dest: bit_imp_le_length)

lemma set_gap_madctl: "madctl_val (fst (snd (panel_st7789_set_gap en st gx gy tr))) = madctl_val st"
  by (simp add: panel_st7789_set_gap_def)

lemma panel_step_keeps_bits:
  assumes "panel_step en c (st, tr) = Some (st1, tr1)" and "n \<noteq> 5" "n \<noteq> 6" "n \<noteq> 7"
  shows "bit (madctl_val st1) n = bit (madctl_val st) n"
proof (cases c)
  case (Mirror mx my)
  with assms(1) have "st1 = fst (snd (panel_st7789_mirror en st mx my tr))"
    by (metis fst_conv option.inject panel_step.simps(5))
  then show ?thesis using assms(2-) by (simp add: mirror_bits)
next
  case (Swap_xy sw)
  with assms(1) have "st1 = fst (snd (panel_st7789_swap_xy en st sw tr))"
    by (metis fst_conv option.inject panel_step.simps(6))
  then show ?thesis using assms(2-) by (simp add: swap_bits)
next
  case (Set_gap gx gy)
  with assms(1) have "st1 = fst (snd (panel_st7789_set_gap en st gx gy tr))"
    by (metis fst_conv option.inject panel_step.simps(7))
  then show ?thesis by (simp add: set_gap_madctl)
qed (use assms(1) in \<open>auto split: prod.splits call_result.splits\<close>)

lemma panel_calls_keep_bits:
  assumes "panel_calls en cs s = Some s1" and "n \<noteq> 5" "n \<noteq> 6" "n \<noteq> 7"
  shows "bit (madctl_val (fst s1)) n = bit (madctl_val (fst s)) n"
  using assms(1)
proof (induction cs arbitrary: s)
  case Nil
  then show ?case by simp
next
  case (Cons c cs)
  then obtain s2 where st: "panel_step en c s = Some s2" and rest: "panel_calls en cs s2 = Some s1"
    by (auto split: option.splits)
  from st have "bit (madctl_val (fst s2)) n = bit (madctl_val (fst s)) n"
    using panel_step_keeps_bits [of en c "fst s" "snd s" "fst s2" "snd s2" n] assms(2-) by simp
  with Cons.IH [OF rest] show ?case by simp
qed

section \<open>Properties of the creation\<close>

lemma new_panel_err_code: "fst (new_panel_err ret a pin tr) = ret"
  and new_panel_err_handle: "fst (snd (new_panel_err ret a pin tr)) = None"
  by (simp_all add: new_panel_err_def Let_def)

lemma new_panel_err_trace:
  "snd (snd (new_panel_err ret a pin tr)) =
     (if a then tr @ (if 0 \<le>s pin then [Gpio_reset_pin pin] else []) @ [Free] else tr)"
  by (simp add: new_panel_err_def Let_def)

text \<open>What the two switches do with an instance that is still zeroed.\<close>

lemma new_panel_color_space_zeroed:
  "new_panel_color_space io_h cfg calloc_st7789 tr =
     (if rgb_endian cfg \<noteq> LCD_RGB_ENDIAN_RGB \<and> rgb_endian cfg \<noteq> LCD_RGB_ENDIAN_BGR then
        new_panel_err ESP_ERR_NOT_SUPPORTED True (cfg_reset_gpio_num cfg) tr
      else if bits_per_pixel cfg \<noteq> 16 \<and> bits_per_pixel cfg \<noteq> 18 then
        new_panel_err ESP_ERR_NOT_SUPPORTED True (cfg_reset_gpio_num cfg) tr
      else
        (ESP_OK,
         Some \<lparr>io = io_h, reset_gpio_num = cfg_reset_gpio_num cfg,
               reset_level = reset_active_high cfg, x_gap = 0, y_gap = 0,
               fb_bits_per_pixel = (if bits_per_pixel cfg = 16 then 16 else 24),
               madctl_val = (if rgb_endian cfg = LCD_RGB_ENDIAN_RGB then 0 else LCD_CMD_BGR_BIT),
               colmod_cal = (if bits_per_pixel cfg = 16 then 0x55 else 0x66)\<rparr>,
         tr))"
  by (cases "rgb_endian cfg")
     (simp_all add: new_panel_color_space_def new_panel_pixel_width_def new_panel_finish_def
        calloc_st7789_def)


lemma new_panel_invalid_arg:
  assumes "io_h = 0 \<or> panel_dev_config = None \<or> \<not> ret_panel"
  shows "esp_lcd_new_panel_st7789 en io_h panel_dev_config ret_panel tr = (ESP_ERR_INVALID_ARG, None, tr)"
  using assms by (auto simp add: esp_lcd_new_panel_st7789_def new_panel_err_def split: option.splits)

lemma new_panel_no_mem:
  assumes "io_h \<noteq> 0" "ret_panel" "en tr Calloc \<noteq> ESP_OK"
  shows "esp_lcd_new_panel_st7789 en io_h (Some cfg) ret_panel tr = (ESP_ERR_NO_MEM, None, tr @ [Calloc])"
  using assms by (simp add: esp_lcd_new_panel_st7789_def new_panel_err_def collab_def)

lemma new_panel_allocated:
  assumes "io_h \<noteq> 0" "ret_panel" "en tr Calloc = ESP_OK"
  shows "esp_lcd_new_panel_st7789 en io_h (Some cfg) ret_panel tr =
           new_panel_reset_line en io_h cfg calloc_st7789 (tr @ [Calloc])"
  using assms by (simp add: esp_lcd_new_panel_st7789_def collab_def)

lemma new_panel_gpio_fails:
  assumes "0 \<le>s cfg_reset_gpio_num cfg"
    and "en tr (Gpio_config_output (push_bit (unat (cfg_reset_gpio_num cfg)) 1)) \<noteq> ESP_OK"
  shows "new_panel_reset_line en io_h cfg st tr =
           (en tr (Gpio_config_output (push_bit (unat (cfg_reset_gpio_num cfg)) 1)), None,
            tr @ [Gpio_config_output (push_bit (unat (cfg_reset_gpio_num cfg)) 1),
                  Gpio_reset_pin (cfg_reset_gpio_num cfg), Free])"
  using assms by (simp add: new_panel_reset_line_def collab_def new_panel_err_def)

lemma new_panel_gpio_ok:
  assumes "0 \<le>s cfg_reset_gpio_num cfg"
    and "en tr (Gpio_config_output (push_bit (unat (cfg_reset_gpio_num cfg)) 1)) = ESP_OK"
  shows "new_panel_reset_line en io_h cfg st tr =
           new_panel_color_space io_h cfg st
             (tr @ [Gpio_config_output (push_bit (unat (cfg_reset_gpio_num cfg)) 1)])"
  using assms by (simp add: new_panel_reset_line_def collab_def)

lemma new_panel_no_pin:
  assumes "\<not> 0 \<le>s cfg_reset_gpio_num cfg"
  shows "new_panel_reset_line en io_h cfg st tr = new_panel_color_space io_h cfg st tr"
  using assms by (simp add: new_panel_reset_line_def)


lemma BGR_BIT_val: "LCD_CMD_BGR_BIT = 0x08"
  by (simp add: LCD_CMD_BGR_BIT_def)

lemma new_panel_success:
  assumes "esp_lcd_new_panel_st7789 en io_h (Some cfg) ret_panel tr = (ESP_OK, Some st, tr1)"
  shows "st = \<lparr>io = io_h, reset_gpio_num = cfg_reset_gpio_num cfg,
               reset_level = reset_active_high cfg, x_gap = 0, y_gap = 0,
               fb_bits_per_pixel = (if bits_per_pixel cfg = 16 then 16 else 24),
               madctl_val = (if rgb_endian cfg = LCD_RGB_ENDIAN_RGB then 0 else LCD_CMD_BGR_BIT),
               colmod_cal = (if bits_per_pixel cfg = 16 then 0x55 else 0x66)\<rparr>"
    and "tr1 = tr @ (if 0 \<le>s cfg_reset_gpio_num cfg
                     then [Calloc, Gpio_config_output (push_bit (unat (cfg_reset_gpio_num cfg)) 1)]
                     else [Calloc])"
    and "rgb_endian cfg = LCD_RGB_ENDIAN_RGB \<or> rgb_endian cfg = LCD_RGB_ENDIAN_BGR"
    and "bits_per_pixel cfg = 16 \<or> bits_per_pixel cfg = 18"
  using assms
  by (auto simp add: esp_lcd_new_panel_st7789_def new_panel_reset_line_def
        new_panel_color_space_zeroed new_panel_err_def collab_def Let_def split: if_splits)

lemma new_panel_ok_handle:
  assumes "fst (esp_lcd_new_panel_st7789 en io_h (Some cfg) ret_panel tr) = ESP_OK"
  shows "\<exists>st tr1. esp_lcd_new_panel_st7789 en io_h (Some cfg) ret_panel tr = (ESP_OK, Some st, tr1)"
  using assms
  by (auto simp add: esp_lcd_new_panel_st7789_def new_panel_reset_line_def
        new_panel_color_space_zeroed new_panel_err_def collab_def Let_def split: if_splits)

lemma new_panel_failure_handle:
  assumes "fst (esp_lcd_new_panel_st7789 en io_h (Some cfg) ret_panel tr) \<noteq> ESP_OK"
  shows "fst (snd (esp_lcd_new_panel_st7789 en io_h (Some cfg) ret_panel tr)) = None"
  using assms
  by (auto simp add: esp_lcd_new_panel_st7789_def new_panel_reset_line_def
        new_panel_color_space_zeroed new_panel_err_def collab_def Let_def split: if_splits)





text \<open>
  Claim C8. Every creation that fails returns the code of its cause, stores no handle and
  leaves nothing acquired. A missing argument gives \<open>ESP_ERR_INVALID_ARG\<close> before anything
  is acquired; a failed allocation gives \<open>ESP_ERR_NO_MEM\<close> with nothing to undo; when the
  configuration of the reset line fails, its code is returned after the pin has been
  released and the instance freed; an unsupported colour order or bit depth gives
  \<open>ESP_ERR_NOT_SUPPORTED\<close> after the pin, when there is one, has been released and the
  instance freed. A creation fails for no other reason.
\<close>

theorem new_panel_failure_unwinds:
  fixes cfg :: esp_lcd_panel_dev_config_t
  defines "pin \<equiv> cfg_reset_gpio_num cfg"
  defines "line \<equiv> Gpio_config_output (push_bit (unat (cfg_reset_gpio_num cfg)) 1)"
  shows
    "esp_lcd_new_panel_st7789 en io_h None ret_panel tr = (ESP_ERR_INVALID_ARG, None, tr)
     \<and> (io_h = 0 \<or> \<not> ret_panel \<longrightarrow>
          esp_lcd_new_panel_st7789 en io_h (Some cfg) ret_panel tr = (ESP_ERR_INVALID_ARG, None, tr))
     \<and> (io_h \<noteq> 0 \<and> ret_panel \<and> en tr Calloc \<noteq> ESP_OK \<longrightarrow>
          esp_lcd_new_panel_st7789 en io_h (Some cfg) ret_panel tr =
            (ESP_ERR_NO_MEM, None, tr @ [Calloc]))
     \<and> (io_h \<noteq> 0 \<and> ret_panel \<and> en tr Calloc = ESP_OK \<and> 0 \<le>s pin \<and>
         en (tr @ [Calloc]) line \<noteq> ESP_OK \<longrightarrow>
          esp_lcd_new_panel_st7789 en io_h (Some cfg) ret_panel tr =
            (en (tr @ [Calloc]) line, None, tr @ [Calloc, line, Gpio_reset_pin pin, Free]))
     \<and> (io_h \<noteq> 0 \<and> ret_panel \<and> en tr Calloc = ESP_OK \<and> 0 \<le>s pin \<and>
         en (tr @ [Calloc]) line = ESP_OK \<and>
         (rgb_endian cfg \<noteq> LCD_RGB_ENDIAN_RGB \<and> rgb_endian cfg \<noteq> LCD_RGB_ENDIAN_BGR \<or>
          bits_per_pixel cfg \<noteq> 16 \<and> bits_per_pixel cfg \<noteq> 18) \<longrightarrow>
          esp_lcd_new_panel_st7789 en io_h (Some cfg) ret_panel tr =
            (ESP_ERR_NOT_SUPPORTED, None, tr @ [Calloc, line, Gpio_reset_pin pin, Free]))
     \<and> (io_h \<noteq> 0 \<and> ret_panel \<and> en tr Calloc = ESP_OK \<and> \<not> 0 \<le>s pin \<and>
         (rgb_endian cfg \<noteq> LCD_RGB_ENDIAN_RGB \<and> rgb_endian cfg \<noteq> LCD_RGB_ENDIAN_BGR \<or>
          bits_per_pixel cfg \<noteq> 16 \<and> bits_per_pixel cfg \<noteq> 18) \<longrightarrow>
          esp_lcd_new_panel_st7789 en io_h (Some cfg) ret_panel tr =
            (ESP_ERR_NOT_SUPPORTED, None, tr @ [Calloc, Free]))
     \<and> (fst (esp_lcd_new_panel_st7789 en io_h (Some cfg) ret_panel tr) \<noteq> ESP_OK \<longrightarrow>
          fst (snd (esp_lcd_new_panel_st7789 en io_h (Some cfg) ret_panel tr)) = None \<and>
          (io_h = 0 \<or> \<not> ret_panel \<or> en tr Calloc \<noteq> ESP_OK \<or>
           0 \<le>s pin \<and> en (tr @ [Calloc]) line \<noteq> ESP_OK \<or>
           rgb_endian cfg \<noteq> LCD_RGB_ENDIAN_RGB \<and> rgb_endian cfg \<noteq> LCD_RGB_ENDIAN_BGR \<or>
           bits_per_pixel cfg \<noteq> 16 \<and> bits_per_pixel cfg \<noteq> 18))"
proof -
  have none: "esp_lcd_new_panel_st7789 en io_h None ret_panel tr = (ESP_ERR_INVALID_ARG, None, tr)"
    by (simp add: new_panel_invalid_arg)
  have arg: "io_h = 0 \<or> \<not> ret_panel \<Longrightarrow>
      esp_lcd_new_panel_st7789 en io_h (Some cfg) ret_panel tr = (ESP_ERR_INVALID_ARG, None, tr)"
    by (rule new_panel_invalid_arg) blast
  have mem: "io_h \<noteq> 0 \<and> ret_panel \<and> en tr Calloc \<noteq> ESP_OK \<Longrightarrow>
      esp_lcd_new_panel_st7789 en io_h (Some cfg) ret_panel tr = (ESP_ERR_NO_MEM, None, tr @ [Calloc])"
    by (simp add: new_panel_no_mem)
  have gpio: "io_h \<noteq> 0 \<and> ret_panel \<and> en tr Calloc = ESP_OK \<and> 0 \<le>s pin \<and>
         en (tr @ [Calloc]) line \<noteq> ESP_OK \<Longrightarrow>
      esp_lcd_new_panel_st7789 en io_h (Some cfg) ret_panel tr =
        (en (tr @ [Calloc]) line, None, tr @ [Calloc, line, Gpio_reset_pin pin, Free])"
    unfolding pin_def line_def by (simp add: new_panel_allocated new_panel_gpio_fails)
  have sw: "esp_lcd_new_panel_st7789 en io_h (Some cfg) ret_panel tr =
        new_panel_color_space io_h cfg calloc_st7789 (tr @ [Calloc, line])"
    if "io_h \<noteq> 0 \<and> ret_panel \<and> en tr Calloc = ESP_OK \<and> 0 \<le>s pin \<and> en (tr @ [Calloc]) line = ESP_OK"
    using that unfolding pin_def line_def by (simp add: new_panel_allocated new_panel_gpio_ok)
  have sw': "esp_lcd_new_panel_st7789 en io_h (Some cfg) ret_panel tr =
        new_panel_color_space io_h cfg calloc_st7789 (tr @ [Calloc])"
    if "io_h \<noteq> 0 \<and> ret_panel \<and> en tr Calloc = ESP_OK \<and> \<not> 0 \<le>s pin"
    using that unfolding pin_def by (simp add: new_panel_allocated new_panel_no_pin)
  have uns: "new_panel_color_space io_h cfg calloc_st7789 t =
        (ESP_ERR_NOT_SUPPORTED, None, t @ (if 0 \<le>s pin then [Gpio_reset_pin pin] else []) @ [Free])"
    if "rgb_endian cfg \<noteq> LCD_RGB_ENDIAN_RGB \<and> rgb_endian cfg \<noteq> LCD_RGB_ENDIAN_BGR \<or>
          bits_per_pixel cfg \<noteq> 16 \<and> bits_per_pixel cfg \<noteq> 18" for t
    using that unfolding pin_def new_panel_color_space_zeroed
    by (auto simp add: new_panel_err_def)
  have ok: "fst (new_panel_color_space io_h cfg calloc_st7789 t) = ESP_OK"
    if "\<not> (rgb_endian cfg \<noteq> LCD_RGB_ENDIAN_RGB \<and> rgb_endian cfg \<noteq> LCD_RGB_ENDIAN_BGR \<or>
          bits_per_pixel cfg \<noteq> 16 \<and> bits_per_pixel cfg \<noteq> 18)" for t
    using that unfolding new_panel_color_space_zeroed by auto
  have hnd: "fst (new_panel_color_space io_h cfg calloc_st7789 t) \<noteq> ESP_OK \<Longrightarrow>
        fst (snd (new_panel_color_space io_h cfg calloc_st7789 t)) = None" for t
    unfolding new_panel_color_space_zeroed by (auto simp add: new_panel_err_handle split: if_splits)
  have last: "fst (esp_lcd_new_panel_st7789 en io_h (Some cfg) ret_panel tr) \<noteq> ESP_OK \<longrightarrow>
          fst (snd (esp_lcd_new_panel_st7789 en io_h (Some cfg) ret_panel tr)) = None \<and>
          (io_h = 0 \<or> \<not> ret_panel \<or> en tr Calloc \<noteq> ESP_OK \<or>
           0 \<le>s pin \<and> en (tr @ [Calloc]) line \<noteq> ESP_OK \<or>
           rgb_endian cfg \<noteq> LCD_RGB_ENDIAN_RGB \<and> rgb_endian cfg \<noteq> LCD_RGB_ENDIAN_BGR \<or>
           bits_per_pixel cfg \<noteq> 16 \<and> bits_per_pixel cfg \<noteq> 18)"
  proof (cases "io_h = 0 \<or> \<not> ret_panel")
    case True
    then show ?thesis using arg by auto
  next
    case a: False
    show ?thesis
    proof (cases "en tr Calloc = ESP_OK")
      case False
      then show ?thesis using a mem by auto
    next
      case al: True
      show ?thesis
      proof (cases "0 \<le>s pin")
        case p: True
        show ?thesis
        proof (cases "en (tr @ [Calloc]) line = ESP_OK")
          case True
          then show ?thesis using a al p sw ok hnd by metis
        next
          case False
          then show ?thesis using a al p gpio by auto
        qed
      next
        case False
        then show ?thesis using a al sw' ok hnd by metis
      qed
    qed
  qed
  show ?thesis
    using none arg mem gpio last sw sw' uns by (intro conjI impI; simp)
qed


theorem new_panel_failure_unwinds_witness:
  "esp_lcd_new_panel_st7789 (\<lambda>h e. ESP_OK) 7
       (Some \<lparr>cfg_reset_gpio_num = 5, rgb_endian = LCD_RGB_ENDIAN_RGB,
              bits_per_pixel = 16, reset_active_high = True\<rparr>) False []
     = (ESP_ERR_INVALID_ARG, None, [])
   \<and> esp_lcd_new_panel_st7789 (\<lambda>h e. if e = Calloc then ESP_FAIL else ESP_OK) 7
       (Some \<lparr>cfg_reset_gpio_num = 5, rgb_endian = LCD_RGB_ENDIAN_RGB,
              bits_per_pixel = 16, reset_active_high = True\<rparr>) True []
     = (ESP_ERR_NO_MEM, None, [Calloc])
   \<and> esp_lcd_new_panel_st7789 (\<lambda>h e. if e = Calloc then ESP_OK else ESP_FAIL) 7
       (Some \<lparr>cfg_reset_gpio_num = 5, rgb_endian = LCD_RGB_ENDIAN_RGB,
              bits_per_pixel = 16, reset_active_high = True\<rparr>) True []
     = (ESP_FAIL, None, [Calloc, Gpio_config_output 32, Gpio_reset_pin 5, Free])
   \<and> esp_lcd_new_panel_st7789 (\<lambda>h e. ESP_OK) 7
       (Some \<lparr>cfg_reset_gpio_num = 5, rgb_endian = LCD_RGB_ENDIAN_RGB,
              bits_per_pixel = 12, reset_active_high = True\<rparr>) True []
     = (ESP_ERR_NOT_SUPPORTED, None, [Calloc, Gpio_config_output 32, Gpio_reset_pin 5, Free])
   \<and> esp_lcd_new_panel_st7789 (\<lambda>h e. ESP_OK) 7
       (Some \<lparr>cfg_reset_gpio_num = - 1, rgb_endian = LCD_RGB_ENDIAN_other 2,
              bits_per_pixel = 16, reset_active_high = True\<rparr>) True []
     = (ESP_ERR_NOT_SUPPORTED, None, [Calloc, Free])"
  using new_panel_failure_unwinds [of "\<lambda>h e. ESP_OK" 7 False "[]"
          "\<lparr>cfg_reset_gpio_num = 5, rgb_endian = LCD_RGB_ENDIAN_RGB,
            bits_per_pixel = 16, reset_active_high = True\<rparr>"]
        new_panel_failure_unwinds [of "\<lambda>h e. if e = Calloc then ESP_FAIL else ESP_OK" 7 True "[]"
          "\<lparr>cfg_reset_gpio_num = 5, rgb_endian = LCD_RGB_ENDIAN_RGB,
            bits_per_pixel = 16, reset_active_high = True\<rparr>"]
        new_panel_failure_unwinds [of "\<lambda>h e. if e = Calloc then ESP_OK else ESP_FAIL" 7 True "[]"
          "\<lparr>cfg_reset_gpio_num = 5, rgb_endian = LCD_RGB_ENDIAN_RGB,
            bits_per_pixel = 16, reset_active_high = True\<rparr>"]
        new_panel_failure_unwinds [of "\<lambda>h e. ESP_OK" 7 True "[]"
          "\<lparr>cfg_reset_gpio_num = 5, rgb_endian = LCD_RGB_ENDIAN_RGB,
            bits_per_pixel = 12, reset_active_high = True\<rparr>"]
        new_panel_failure_unwinds [of "\<lambda>h e. ESP_OK" 7 True "[]"
          "\<lparr>cfg_reset_gpio_num = - 1, rgb_endian = LCD_RGB_ENDIAN_other 2,
            bits_per_pixel = 16, reset_active_high = True\<rparr>"]
  by (simp add: word_sle_eq)

section \<open>Reset, initialisation, drawing precondition and gap\<close>

text \<open>
  Claim C3. The reset takes one of two paths, by the sign of the stored pin number,
  which is the one given at the creation (where the pin is configured exactly when it
  is not negative). With a pin: the pin is driven to the active level, 10 ms pass, the
  pin is driven to the opposite level, 10 ms pass, and the result is \<open>ESP_OK\<close> whatever
  the environment answers. Without a pin: the command \<open>0x01\<close> is sent without
  parameters; when the transport accepts it 20 ms pass and the result is \<open>ESP_OK\<close>,
  otherwise the code of the transport is returned at once.
\<close>

theorem reset_two_paths:
  "(0 \<le> sint (reset_gpio_num st) \<longrightarrow>
      panel_st7789_reset en st tr =
        (ESP_OK, tr @ [Gpio_set_level (reset_gpio_num st) (reset_level st), Task_delay_ms 10,
                       Gpio_set_level (reset_gpio_num st) (\<not> reset_level st), Task_delay_ms 10]))
   \<and> (sint (reset_gpio_num st) < 0 \<and> en tr (Io_tx_param (io st) 0x01 []) = ESP_OK \<longrightarrow>
      panel_st7789_reset en st tr = (ESP_OK, tr @ [Io_tx_param (io st) 0x01 [], Task_delay_ms 20]))
   \<and> (sint (reset_gpio_num st) < 0 \<and> en tr (Io_tx_param (io st) 0x01 []) \<noteq> ESP_OK \<longrightarrow>
      panel_st7789_reset en st tr =
        (en tr (Io_tx_param (io st) 0x01 []), tr @ [Io_tx_param (io st) 0x01 []]))
   \<and> (esp_lcd_new_panel_st7789 en0 io_h (Some cfg) ret_panel tr0 = (ESP_OK, Some st, tr) \<longrightarrow>
      reset_gpio_num st = cfg_reset_gpio_num cfg \<and> reset_level st = reset_active_high cfg \<and>
      tr = tr0 @ (if 0 \<le> sint (reset_gpio_num st)
                  then [Calloc, Gpio_config_output (push_bit (unat (reset_gpio_num st)) 1)]
                  else [Calloc]))"
proof -
  have "reset_gpio_num st = cfg_reset_gpio_num cfg \<and> reset_level st = reset_active_high cfg \<and>
      tr = tr0 @ (if 0 \<le> sint (reset_gpio_num st)
                  then [Calloc, Gpio_config_output (push_bit (unat (reset_gpio_num st)) 1)]
                  else [Calloc])"
    if c: "esp_lcd_new_panel_st7789 en0 io_h (Some cfg) ret_panel tr0 = (ESP_OK, Some st, tr)"
    using new_panel_success(1) [OF c] new_panel_success(2) [OF c] by (simp add: word_sle_eq)
  moreover have "0 \<le> sint (reset_gpio_num st) \<longrightarrow>
      panel_st7789_reset en st tr =
        (ESP_OK, tr @ [Gpio_set_level (reset_gpio_num st) (reset_level st), Task_delay_ms 10,
                       Gpio_set_level (reset_gpio_num st) (\<not> reset_level st), Task_delay_ms 10])"
    by (simp add: panel_st7789_reset_def vTaskDelay_ms_def Let_def word_sle_eq)
  moreover have "sint (reset_gpio_num st) < 0 \<and> en tr (Io_tx_param (io st) 0x01 []) = ESP_OK \<longrightarrow>
      panel_st7789_reset en st tr = (ESP_OK, tr @ [Io_tx_param (io st) 0x01 [], Task_delay_ms 20])"
    by (simp add: panel_st7789_reset_def vTaskDelay_ms_def esp_lcd_panel_io_tx_param_def
        collab_def LCD_CMD_SWRESET_def word_sle_eq)
  moreover have "sint (reset_gpio_num st) < 0 \<and> en tr (Io_tx_param (io st) 0x01 []) \<noteq> ESP_OK \<longrightarrow>
      panel_st7789_reset en st tr =
        (en tr (Io_tx_param (io st) 0x01 []), tr @ [Io_tx_param (io st) 0x01 []])"
    by (simp add: panel_st7789_reset_def vTaskDelay_ms_def esp_lcd_panel_io_tx_param_def
        collab_def LCD_CMD_SWRESET_def word_sle_eq)
  ultimately show ?thesis by blast
qed

theorem reset_two_paths_witness:
  "esp_lcd_new_panel_st7789 (\<lambda>h e. ESP_OK) 7
      (Some \<lparr>cfg_reset_gpio_num = 5, rgb_endian = LCD_RGB_ENDIAN_RGB,
             bits_per_pixel = 16, reset_active_high = True\<rparr>) True []
     = (ESP_OK,
        Some \<lparr>io = 7, reset_gpio_num = 5, reset_level = True, x_gap = 0, y_gap = 0,
              fb_bits_per_pixel = 16, madctl_val = 0, colmod_cal = 0x55\<rparr>,
        [Calloc, Gpio_config_output 32])
   \<and> panel_st7789_reset (\<lambda>h e. ESP_FAIL)
      \<lparr>io = 7, reset_gpio_num = 5, reset_level = True, x_gap = 0, y_gap = 0,
        fb_bits_per_pixel = 16, madctl_val = 0, colmod_cal = 0x55\<rparr> [Calloc, Gpio_config_output 32]
     = (ESP_OK, [Calloc, Gpio_config_output 32,
                 Gpio_set_level 5 True, Task_delay_ms 10, Gpio_set_level 5 False, Task_delay_ms 10])
   \<and> panel_st7789_reset (\<lambda>h e. ESP_OK)
      \<lparr>io = 7, reset_gpio_num = - 1, reset_level = True, x_gap = 0, y_gap = 0,
        fb_bits_per_pixel = 16, madctl_val = 0, colmod_cal = 0x55\<rparr> []
     = (ESP_OK, [Io_tx_param 7 0x01 [], Task_delay_ms 20])
   \<and> panel_st7789_reset (\<lambda>h e. ESP_ERR_OTHER 263)
      \<lparr>io = 7, reset_gpio_num = - 1, reset_level = True, x_gap = 0, y_gap = 0,
        fb_bits_per_pixel = 16, madctl_val = 0, colmod_cal = 0x55\<rparr> []
     = (ESP_ERR_OTHER 263, [Io_tx_param 7 0x01 []])"
proof -
  have created: "esp_lcd_new_panel_st7789 (\<lambda>h e. ESP_OK) 7
      (Some \<lparr>cfg_reset_gpio_num = 5, rgb_endian = LCD_RGB_ENDIAN_RGB,
             bits_per_pixel = 16, reset_active_high = True\<rparr>) True []
     = (ESP_OK,
        Some \<lparr>io = 7, reset_gpio_num = 5, reset_level = True, x_gap = 0, y_gap = 0,
              fb_bits_per_pixel = 16, madctl_val = 0, colmod_cal = 0x55\<rparr>,
        [Calloc, Gpio_config_output 32])"
    by (simp add: esp_lcd_new_panel_st7789_def new_panel_reset_line_def new_panel_color_space_def
        new_panel_pixel_width_def new_panel_finish_def collab_def calloc_st7789_def word_sle_eq)
  show ?thesis
    using created
      reset_two_paths [of "\<lparr>io = 7, reset_gpio_num = 5, reset_level = True, x_gap = 0, y_gap = 0,
        fb_bits_per_pixel = 16, madctl_val = 0, colmod_cal = 0x55\<rparr>" "\<lambda>h e. ESP_FAIL"
        "[Calloc, Gpio_config_output 32]" "\<lambda>h e. ESP_OK" 7
        "\<lparr>cfg_reset_gpio_num = 5, rgb_endian = LCD_RGB_ENDIAN_RGB,
             bits_per_pixel = 16, reset_active_high = True\<rparr>" True "[]"]
      reset_two_paths [of "\<lparr>io = 7, reset_gpio_num = - 1, reset_level = True, x_gap = 0, y_gap = 0,
        fb_bits_per_pixel = 16, madctl_val = 0, colmod_cal = 0x55\<rparr>" "\<lambda>h e. ESP_OK" "[]"]
      reset_two_paths [of "\<lparr>io = 7, reset_gpio_num = - 1, reset_level = True, x_gap = 0, y_gap = 0,
        fb_bits_per_pixel = 16, madctl_val = 0, colmod_cal = 0x55\<rparr>" "\<lambda>h e. ESP_ERR_OTHER 263" "[]"]
    by simp
qed

text \<open>
  Claim C4. The initialisation sends \<open>0x11\<close> without parameters, waits 100 ms, sends
  \<open>0x36\<close> with the current memory-access-control byte and \<open>0x3A\<close> with the current
  pixel-format code. The first of these three commands that the transport refuses ends
  the sequence, and its code is returned. When the three are accepted the two gamma
  tables \<open>0xE0\<close> and \<open>0xE1\<close> follow and the result is \<open>ESP_OK\<close>, whatever the transport
  answers to them.
\<close>

theorem init_sequence:
  fixes st :: st7789_panel_t
  defines "slpout \<equiv> Io_tx_param (io st) 0x11 []"
  defines "madctl \<equiv> Io_tx_param (io st) 0x36 [madctl_val st]"
  defines "colmod \<equiv> Io_tx_param (io st) 0x3A [colmod_cal st]"
  defines "gamma_p \<equiv> Io_tx_param (io st) 0xE0 gamma_high_contrast"
  defines "gamma_n \<equiv> Io_tx_param (io st) 0xE1 gamma_high_contrast"
  shows
    "(en tr slpout \<noteq> ESP_OK \<longrightarrow>
        panel_st7789_init en st tr = (en tr slpout, tr @ [slpout]))
     \<and> (en tr slpout = ESP_OK \<and> en (tr @ [slpout, Task_delay_ms 100]) madctl \<noteq> ESP_OK \<longrightarrow>
        panel_st7789_init en st tr =
          (en (tr @ [slpout, Task_delay_ms 100]) madctl, tr @ [slpout, Task_delay_ms 100, madctl]))
     \<and> (en tr slpout = ESP_OK \<and> en (tr @ [slpout, Task_delay_ms 100]) madctl = ESP_OK \<and>
         en (tr @ [slpout, Task_delay_ms 100, madctl]) colmod \<noteq> ESP_OK \<longrightarrow>
        panel_st7789_init en st tr =
          (en (tr @ [slpout, Task_delay_ms 100, madctl]) colmod,
           tr @ [slpout, Task_delay_ms 100, madctl, colmod]))
     \<and> (en tr slpout = ESP_OK \<and> en (tr @ [slpout, Task_delay_ms 100]) madctl = ESP_OK \<and>
         en (tr @ [slpout, Task_delay_ms 100, madctl]) colmod = ESP_OK \<longrightarrow>
        panel_st7789_init en st tr =
          (ESP_OK, tr @ [slpout, Task_delay_ms 100, madctl, colmod, gamma_p, gamma_n]))"
  unfolding slpout_def madctl_def colmod_def gamma_p_def gamma_n_def
  by (simp add: panel_st7789_init_def vTaskDelay_ms_def esp_lcd_panel_io_tx_param_def collab_def
      LCD_CMD_SLPOUT_def LCD_CMD_MADCTL_def LCD_CMD_COLMOD_def Let_def)

theorem init_sequence_witness:
  "panel_st7789_init (\<lambda>h e. case e of Io_tx_param i c p \<Rightarrow> if c = 0xE0 \<or> c = 0xE1 then ESP_FAIL else ESP_OK
                                  | _ \<Rightarrow> ESP_OK)
      \<lparr>io = 7, reset_gpio_num = 5, reset_level = True, x_gap = 0, y_gap = 0,
        fb_bits_per_pixel = 24, madctl_val = 0x08, colmod_cal = 0x66\<rparr> []
     = (ESP_OK, [Io_tx_param 7 0x11 [], Task_delay_ms 100, Io_tx_param 7 0x36 [0x08],
                 Io_tx_param 7 0x3A [0x66],
                 Io_tx_param 7 0xE0 [0xf0, 0x04, 0x08, 0x06, 0x08, 0x28, 0x40, 0x43, 0x60, 0x1e, 0x1c, 0x18, 0x35, 0x36],
                 Io_tx_param 7 0xE1 [0xf0, 0x04, 0x08, 0x06, 0x08, 0x28, 0x40, 0x43, 0x60, 0x1e, 0x1c, 0x18, 0x35, 0x36]])
   \<and> panel_st7789_init (\<lambda>h e. ESP_FAIL)
      \<lparr>io = 7, reset_gpio_num = 5, reset_level = True, x_gap = 0, y_gap = 0,
        fb_bits_per_pixel = 24, madctl_val = 0x08, colmod_cal = 0x66\<rparr> []
     = (ESP_FAIL, [Io_tx_param 7 0x11 []])
   \<and> panel_st7789_init (\<lambda>h e. case e of Io_tx_param i c p \<Rightarrow> if c = 0x36 then ESP_ERR_OTHER 263 else ESP_OK
                                  | _ \<Rightarrow> ESP_OK)
      \<lparr>io = 7, reset_gpio_num = 5, reset_level = True, x_gap = 0, y_gap = 0,
        fb_bits_per_pixel = 24, madctl_val = 0x08, colmod_cal = 0x66\<rparr> []
     = (ESP_ERR_OTHER 263, [Io_tx_param 7 0x11 [], Task_delay_ms 100, Io_tx_param 7 0x36 [0x08]])
   \<and> panel_st7789_init (\<lambda>h e. case e of Io_tx_param i c p \<Rightarrow> if c = 0x3A then ESP_ERR_OTHER 263 else ESP_OK
                                  | _ \<Rightarrow> ESP_OK)
      \<lparr>io = 7, reset_gpio_num = 5, reset_level = True, x_gap = 0, y_gap = 0,
        fb_bits_per_pixel = 24, madctl_val = 0x08, colmod_cal = 0x66\<rparr> []
     = (ESP_ERR_OTHER 263, [Io_tx_param 7 0x11 [], Task_delay_ms 100, Io_tx_param 7 0x36 [0x08],
                            Io_tx_param 7 0x3A [0x66]])"
  using init_sequence [of "\<lambda>h e. case e of Io_tx_param i c p \<Rightarrow> if c = 0xE0 \<or> c = 0xE1 then ESP_FAIL else ESP_OK
                                  | _ \<Rightarrow> ESP_OK" "[]"
      "\<lparr>io = 7, reset_gpio_num = 5, reset_level = True, x_gap = 0, y_gap = 0,
        fb_bits_per_pixel = 24, madctl_val = 0x08, colmod_cal = 0x66\<rparr>"]
    init_sequence [of "\<lambda>h e. ESP_FAIL" "[]"
      "\<lparr>io = 7, reset_gpio_num = 5, reset_level = True, x_gap = 0, y_gap = 0,
        fb_bits_per_pixel = 24, madctl_val = 0x08, colmod_cal = 0x66\<rparr>"]
    init_sequence [of "\<lambda>h e. case e of Io_tx_param i c p \<Rightarrow> if c = 0x36 then ESP_ERR_OTHER 263 else ESP_OK
                                  | _ \<Rightarrow> ESP_OK" "[]"
      "\<lparr>io = 7, reset_gpio_num = 5, reset_level = True, x_gap = 0, y_gap = 0,
        fb_bits_per_pixel = 24, madctl_val = 0x08, colmod_cal = 0x66\<rparr>"]
    init_sequence [of "\<lambda>h e. case e of Io_tx_param i c p \<Rightarrow> if c = 0x3A then ESP_ERR_OTHER 263 else ESP_OK
                                  | _ \<Rightarrow> ESP_OK" "[]"
      "\<lparr>io = 7, reset_gpio_num = 5, reset_level = True, x_gap = 0, y_gap = 0,
        fb_bits_per_pixel = 24, madctl_val = 0x08, colmod_cal = 0x66\<rparr>"]
  by (simp add: gamma_high_contrast_def)

text \<open>
  Claim C7. When \<open>x_start < x_end\<close> and \<open>y_start < y_end\<close> do not both hold (as signed
  numbers), the assertion of the drawing fails and the trace is unchanged: no command
  has been sent. When both hold, the assertion does not fail and the drawing returns a
  code.
\<close>

theorem draw_bitmap_assertion:
  "(\<not> (sint x_start < sint x_end \<and> sint y_start < sint y_end) \<longrightarrow>
      panel_st7789_draw_bitmap en st x_start y_start x_end y_end color_data tr = (Assert_failed, tr))
   \<and> (sint x_start < sint x_end \<and> sint y_start < sint y_end \<longrightarrow>
      (\<exists>r. fst (panel_st7789_draw_bitmap en st x_start y_start x_end y_end color_data tr) = Returns r))"
  by (auto simp add: panel_st7789_draw_bitmap_def word_sless_alt Let_def split: prod.splits)

theorem draw_bitmap_assertion_witness:
  "panel_st7789_draw_bitmap (\<lambda>h e. ESP_OK)
      \<lparr>io = 7, reset_gpio_num = 5, reset_level = True, x_gap = 0, y_gap = 0,
        fb_bits_per_pixel = 16, madctl_val = 0, colmod_cal = 0x55\<rparr> 10 0 10 20 [] []
     = (Assert_failed, [])
   \<and> panel_st7789_draw_bitmap (\<lambda>h e. ESP_OK)
      \<lparr>io = 7, reset_gpio_num = 5, reset_level = True, x_gap = 0, y_gap = 0,
        fb_bits_per_pixel = 16, madctl_val = 0, colmod_cal = 0x55\<rparr> 0 7 10 (- 3) [] []
     = (Assert_failed, [])
   \<and> (\<exists>r. fst (panel_st7789_draw_bitmap (\<lambda>h e. ESP_OK)
      \<lparr>io = 7, reset_gpio_num = 5, reset_level = True, x_gap = 0, y_gap = 0,
        fb_bits_per_pixel = 16, madctl_val = 0, colmod_cal = 0x55\<rparr> 0 0 10 20 [] []) = Returns r)"
  using draw_bitmap_assertion [of 10 10 0 20 "\<lambda>h e. ESP_OK"
      "\<lparr>io = 7, reset_gpio_num = 5, reset_level = True, x_gap = 0, y_gap = 0,
        fb_bits_per_pixel = 16, madctl_val = 0, colmod_cal = 0x55\<rparr>" "[]" "[]"]
    draw_bitmap_assertion [of 0 10 7 "- 3" "\<lambda>h e. ESP_OK"
      "\<lparr>io = 7, reset_gpio_num = 5, reset_level = True, x_gap = 0, y_gap = 0,
        fb_bits_per_pixel = 16, madctl_val = 0, colmod_cal = 0x55\<rparr>" "[]" "[]"]
    draw_bitmap_assertion [of 0 10 0 20 "\<lambda>h e. ESP_OK"
      "\<lparr>io = 7, reset_gpio_num = 5, reset_level = True, x_gap = 0, y_gap = 0,
        fb_bits_per_pixel = 16, madctl_val = 0, colmod_cal = 0x55\<rparr>" "[]" "[]"]
  by simp

text \<open>
  Claim C9. Setting the gap returns \<open>ESP_OK\<close>, leaves the trace as it is, stores the two
  offsets and changes no other field of the instance.
\<close>

theorem set_gap_frame:
  "fst (panel_st7789_set_gap en st gx gy tr) = ESP_OK
   \<and> snd (snd (panel_st7789_set_gap en st gx gy tr)) = tr
   \<and> x_gap (fst (snd (panel_st7789_set_gap en st gx gy tr))) = gx
   \<and> y_gap (fst (snd (panel_st7789_set_gap en st gx gy tr))) = gy
   \<and> io (fst (snd (panel_st7789_set_gap en st gx gy tr))) = io st
   \<and> reset_gpio_num (fst (snd (panel_st7789_set_gap en st gx gy tr))) = reset_gpio_num st
   \<and> reset_level (fst (snd (panel_st7789_set_gap en st gx gy tr))) = reset_level st
   \<and> fb_bits_per_pixel (fst (snd (panel_st7789_set_gap en st gx gy tr))) = fb_bits_per_pixel st
   \<and> madctl_val (fst (snd (panel_st7789_set_gap en st gx gy tr))) = madctl_val st
   \<and> colmod_cal (fst (snd (panel_st7789_set_gap en st gx gy tr))) = colmod_cal st"
  by (simp add: panel_st7789_set_gap_def)

theorem set_gap_frame_witness:
  "panel_st7789_set_gap (\<lambda>h e. ESP_FAIL)
      \<lparr>io = 7, reset_gpio_num = 5, reset_level = True, x_gap = 1, y_gap = 2,
        fb_bits_per_pixel = 16, madctl_val = 0x48, colmod_cal = 0x55\<rparr> 3 5 [Task_delay_ms 20]
     = (ESP_OK,
        \<lparr>io = 7, reset_gpio_num = 5, reset_level = True, x_gap = 3, y_gap = 5,
          fb_bits_per_pixel = 16, madctl_val = 0x48, colmod_cal = 0x55\<rparr>, [Task_delay_ms 20])"
  using set_gap_frame [of "\<lambda>h e. ESP_FAIL"
      "\<lparr>io = 7, reset_gpio_num = 5, reset_level = True, x_gap = 1, y_gap = 2,
        fb_bits_per_pixel = 16, madctl_val = 0x48, colmod_cal = 0x55\<rparr>" 3 5 "[Task_delay_ms 20]"]
  by (cases "panel_st7789_set_gap (\<lambda>h e. ESP_FAIL)
      \<lparr>io = 7, reset_gpio_num = 5, reset_level = True, x_gap = 1, y_gap = 2,
        fb_bits_per_pixel = 16, madctl_val = 0x48, colmod_cal = 0x55\<rparr> 3 5 [Task_delay_ms 20]")
     (auto)

section \<open>The orientation byte under mirror and swap\<close>

text \<open>
  Claim C5. Mirroring sets bit 6 to \<open>mirror_x\<close> and bit 7 to \<open>mirror_y\<close> and leaves every
  other bit of the memory-access-control byte as it was; swapping the axes sets bit 5 to
  \<open>swap_axes\<close> and leaves every other bit. Over any sequence of calls on the instance all
  bits other than 5, 6 and 7 keep their value; in particular bit 3 stays what the
  creation made it: set exactly for the BGR order.
\<close>

theorem orientation_bits_frame:
  "bit (madctl_val (fst (snd (panel_st7789_mirror en st mx my tr)))) 6 = mx
   \<and> bit (madctl_val (fst (snd (panel_st7789_mirror en st mx my tr)))) 7 = my
   \<and> (\<forall>n. n \<noteq> 6 \<and> n \<noteq> 7 \<longrightarrow>
          bit (madctl_val (fst (snd (panel_st7789_mirror en st mx my tr)))) n = bit (madctl_val st) n)
   \<and> bit (madctl_val (fst (snd (panel_st7789_swap_xy en st sw tr)))) 5 = sw
   \<and> (\<forall>n. n \<noteq> 5 \<longrightarrow>
          bit (madctl_val (fst (snd (panel_st7789_swap_xy en st sw tr)))) n = bit (madctl_val st) n)
   \<and> (panel_calls en cs (st, tr) = Some (st1, tr1) \<longrightarrow>
        (\<forall>n. n \<noteq> 5 \<and> n \<noteq> 6 \<and> n \<noteq> 7 \<longrightarrow> bit (madctl_val st1) n = bit (madctl_val st) n))
   \<and> (esp_lcd_new_panel_st7789 en0 io_h (Some cfg) ret_panel tr0 = (ESP_OK, Some st, tr) \<and>
       panel_calls en cs (st, tr) = Some (st1, tr1) \<longrightarrow>
        bit (madctl_val st1) 3 = (rgb_endian cfg = LCD_RGB_ENDIAN_BGR))"
proof -
  have seq: "bit (madctl_val st1) n = bit (madctl_val st) n"
    if "panel_calls en cs (st, tr) = Some (st1, tr1)" "n \<noteq> 5" "n \<noteq> 6" "n \<noteq> 7" for n
    using panel_calls_keep_bits [OF that] by simp
  have "bit (madctl_val st1) 3 = (rgb_endian cfg = LCD_RGB_ENDIAN_BGR)"
    if c: "esp_lcd_new_panel_st7789 en0 io_h (Some cfg) ret_panel tr0 = (ESP_OK, Some st, tr)"
      and r: "panel_calls en cs (st, tr) = Some (st1, tr1)"
  proof -
    have "bit (madctl_val st) 3 = (rgb_endian cfg = LCD_RGB_ENDIAN_BGR)"
      using new_panel_success(1) [OF c] new_panel_success(3) [OF c] by (auto simp add: bit_BGR)
    then show ?thesis using seq [OF r, of 3] by simp
  qed
  then show ?thesis
    using seq by (simp add: mirror_bits swap_bits)
qed

theorem orientation_bits_frame_witness:
  "esp_lcd_new_panel_st7789 (\<lambda>h e. ESP_OK) 7
      (Some \<lparr>cfg_reset_gpio_num = - 1, rgb_endian = LCD_RGB_ENDIAN_BGR,
             bits_per_pixel = 16, reset_active_high = False\<rparr>) True []
     = (ESP_OK,
        Some \<lparr>io = 7, reset_gpio_num = - 1, reset_level = False, x_gap = 0, y_gap = 0,
              fb_bits_per_pixel = 16, madctl_val = 0x08, colmod_cal = 0x55\<rparr>,
        [Calloc])
   \<and> panel_calls (\<lambda>h e. ESP_OK)
        [Mirror True False, Set_gap 3 5, Swap_xy True, Mirror False True, Invert_color True]
        (\<lparr>io = 7, reset_gpio_num = - 1, reset_level = False, x_gap = 0, y_gap = 0,
           fb_bits_per_pixel = 16, madctl_val = 0x08, colmod_cal = 0x55\<rparr>, [Calloc])
     = Some (\<lparr>io = 7, reset_gpio_num = - 1, reset_level = False, x_gap = 3, y_gap = 5,
               fb_bits_per_pixel = 16, madctl_val = 0xA8, colmod_cal = 0x55\<rparr>,
             [Calloc, Io_tx_param 7 0x36 [0x48], Io_tx_param 7 0x36 [0x68],
              Io_tx_param 7 0x36 [0xA8], Io_tx_param 7 0x21 []])
   \<and> bit (0xA8 :: uint8_t) 3 = bit (0x08 :: uint8_t) 3
   \<and> bit (0xA8 :: uint8_t) 3"
proof -
  have created: "esp_lcd_new_panel_st7789 (\<lambda>h e. ESP_OK) 7
      (Some \<lparr>cfg_reset_gpio_num = - 1, rgb_endian = LCD_RGB_ENDIAN_BGR,
             bits_per_pixel = 16, reset_active_high = False\<rparr>) True []
     = (ESP_OK,
        Some \<lparr>io = 7, reset_gpio_num = - 1, reset_level = False, x_gap = 0, y_gap = 0,
              fb_bits_per_pixel = 16, madctl_val = 0x08, colmod_cal = 0x55\<rparr>,
        [Calloc])"
    by (simp add: esp_lcd_new_panel_st7789_def new_panel_reset_line_def new_panel_color_space_def
        new_panel_pixel_width_def new_panel_finish_def collab_def calloc_st7789_def word_sle_eq
        LCD_CMD_BGR_BIT_def)
  have calls: "panel_calls (\<lambda>h e. ESP_OK)
        [Mirror True False, Set_gap 3 5, Swap_xy True, Mirror False True, Invert_color True]
        (\<lparr>io = 7, reset_gpio_num = - 1, reset_level = False, x_gap = 0, y_gap = 0,
           fb_bits_per_pixel = 16, madctl_val = 0x08, colmod_cal = 0x55\<rparr>, [Calloc])
     = Some (\<lparr>io = 7, reset_gpio_num = - 1, reset_level = False, x_gap = 3, y_gap = 5,
               fb_bits_per_pixel = 16, madctl_val = 0xA8, colmod_cal = 0x55\<rparr>,
             [Calloc, Io_tx_param 7 0x36 [0x48], Io_tx_param 7 0x36 [0x68],
              Io_tx_param 7 0x36 [0xA8], Io_tx_param 7 0x21 []])"
    by (simp add: panel_st7789_mirror_def panel_st7789_swap_xy_def panel_st7789_set_gap_def
        panel_st7789_invert_color_def esp_lcd_panel_io_tx_param_def collab_def
        LCD_CMD_MX_BIT_def LCD_CMD_MY_BIT_def LCD_CMD_MV_BIT_def LCD_CMD_MADCTL_def
        LCD_CMD_INVON_def)
  show ?thesis
    using created calls
      orientation_bits_frame [where en = "\<lambda>h e. ESP_OK" and en0 = "\<lambda>h e. ESP_OK" and io_h = 7
        and cfg = "\<lparr>cfg_reset_gpio_num = - 1, rgb_endian = LCD_RGB_ENDIAN_BGR,
             bits_per_pixel = 16, reset_active_high = False\<rparr>"
        and ret_panel = True and ?tr0.0 = "[]" and tr = "[Calloc]"
        and st = "\<lparr>io = 7, reset_gpio_num = - 1, reset_level = False, x_gap = 0, y_gap = 0,
              fb_bits_per_pixel = 16, madctl_val = 0x08, colmod_cal = 0x55\<rparr>"
        and cs = "[Mirror True False, Set_gap 3 5, Swap_xy True, Mirror False True, Invert_color True]"
        and ?st1.0 = "\<lparr>io = 7, reset_gpio_num = - 1, reset_level = False, x_gap = 3, y_gap = 5,
               fb_bits_per_pixel = 16, madctl_val = 0xA8, colmod_cal = 0x55\<rparr>"
        and ?tr1.0 = "[Calloc, Io_tx_param 7 0x36 [0x48], Io_tx_param 7 0x36 [0x68],
              Io_tx_param 7 0x36 [0xA8], Io_tx_param 7 0x21 []]"]
    by simp
qed

text \<open>
  Claim C6. From any state, mirroring with \<open>(True, False)\<close> and swapping with \<open>True\<close>, in
  this order or the other, end with the same memory-access-control byte: bits 6 and 5
  set, bit 7 clear, the other bits as before.
\<close>

theorem mirror_then_swap_either_order:
  "\<exists>a ta b tb.
      panel_calls en [Mirror True False, Swap_xy True] (st, tr) = Some (a, ta)
    \<and> panel_calls en [Swap_xy True, Mirror True False] (st, tr) = Some (b, tb)
    \<and> madctl_val a = madctl_val b
    \<and> bit (madctl_val a) 6 \<and> bit (madctl_val a) 5 \<and> \<not> bit (madctl_val a) 7
    \<and> (\<forall>n. n \<noteq> 5 \<and> n \<noteq> 6 \<and> n \<noteq> 7 \<longrightarrow> bit (madctl_val a) n = bit (madctl_val st) n)"
proof -
  define m where "m = snd (panel_st7789_mirror en st True False tr)"
  define a where "a = snd (panel_st7789_swap_xy en (fst m) True (snd m))"
  define s where "s = snd (panel_st7789_swap_xy en st True tr)"
  define b where "b = snd (panel_st7789_mirror en (fst s) True False (snd s))"
  have ra: "panel_calls en [Mirror True False, Swap_xy True] (st, tr) = Some (fst a, snd a)"
    unfolding a_def m_def by (cases "snd (panel_st7789_mirror en st True False tr)") simp
  have rb: "panel_calls en [Swap_xy True, Mirror True False] (st, tr) = Some (fst b, snd b)"
    unfolding b_def s_def by (cases "snd (panel_st7789_swap_xy en st True tr)") simp
  have ba: "bit (madctl_val (fst a)) n =
      (if n = 5 then True else if n = 6 then True else if n = 7 then False
       else bit (madctl_val st) n)" for n
    unfolding a_def m_def by (simp add: swap_bits mirror_bits)
  have bb: "bit (madctl_val (fst b)) n =
      (if n = 5 then True else if n = 6 then True else if n = 7 then False
       else bit (madctl_val st) n)" for n
    unfolding b_def s_def by (simp add: swap_bits mirror_bits)
  have eq: "madctl_val (fst a) = madctl_val (fst b)"
    by (rule bit_word_eqI) (simp only: ba bb)
  have b6: "bit (madctl_val (fst a)) 6" and b5: "bit (madctl_val (fst a)) 5"
    and b7: "\<not> bit (madctl_val (fst a)) 7"
    by (simp_all add: ba)
  have fr: "\<forall>n. n \<noteq> 5 \<and> n \<noteq> 6 \<and> n \<noteq> 7 \<longrightarrow>
           bit (madctl_val (fst a)) n = bit (madctl_val st) n"
    by (simp add: ba)
  show ?thesis
    using ra rb eq b6 b5 b7 fr by blast
qed

theorem mirror_then_swap_either_order_witness:
  "panel_calls (\<lambda>h e. ESP_OK) [Mirror True False, Swap_xy True]
      (\<lparr>io = 7, reset_gpio_num = 5, reset_level = True, x_gap = 0, y_gap = 0,
         fb_bits_per_pixel = 16, madctl_val = 0x88, colmod_cal = 0x55\<rparr>, [])
     = Some (\<lparr>io = 7, reset_gpio_num = 5, reset_level = True, x_gap = 0, y_gap = 0,
         fb_bits_per_pixel = 16, madctl_val = 0x68, colmod_cal = 0x55\<rparr>,
             [Io_tx_param 7 0x36 [0x48], Io_tx_param 7 0x36 [0x68]])
   \<and> panel_calls (\<lambda>h e. ESP_OK) [Swap_xy True, Mirror True False]
      (\<lparr>io = 7, reset_gpio_num = 5, reset_level = True, x_gap = 0, y_gap = 0,
         fb_bits_per_pixel = 16, madctl_val = 0x88, colmod_cal = 0x55\<rparr>, [])
     = Some (\<lparr>io = 7, reset_gpio_num = 5, reset_level = True, x_gap = 0, y_gap = 0,
         fb_bits_per_pixel = 16, madctl_val = 0x68, colmod_cal = 0x55\<rparr>,
             [Io_tx_param 7 0x36 [0xA8], Io_tx_param 7 0x36 [0x68]])
   \<and> bit (0x68 :: uint8_t) 6 \<and> bit (0x68 :: uint8_t) 5 \<and> \<not> bit (0x68 :: uint8_t) 7
   \<and> bit (0x68 :: uint8_t) 3 = bit (0x88 :: uint8_t) 3"
proof -
  have e1: "panel_calls (\<lambda>h e. ESP_OK) [Mirror True False, Swap_xy True]
      (\<lparr>io = 7, reset_gpio_num = 5, reset_level = True, x_gap = 0, y_gap = 0,
         fb_bits_per_pixel = 16, madctl_val = 0x88, colmod_cal = 0x55\<rparr>, [])
     = Some (\<lparr>io = 7, reset_gpio_num = 5, reset_level = True, x_gap = 0, y_gap = 0,
         fb_bits_per_pixel = 16, madctl_val = 0x68, colmod_cal = 0x55\<rparr>,
             [Io_tx_param 7 0x36 [0x48], Io_tx_param 7 0x36 [0x68]])"
    by (simp add: panel_st7789_mirror_def panel_st7789_swap_xy_def esp_lcd_panel_io_tx_param_def
        collab_def LCD_CMD_MX_BIT_def LCD_CMD_MY_BIT_def LCD_CMD_MV_BIT_def LCD_CMD_MADCTL_def)
  have e2: "panel_calls (\<lambda>h e. ESP_OK) [Swap_xy True, Mirror True False]
      (\<lparr>io = 7, reset_gpio_num = 5, reset_level = True, x_gap = 0, y_gap = 0,
         fb_bits_per_pixel = 16, madctl_val = 0x88, colmod_cal = 0x55\<rparr>, [])
     = Some (\<lparr>io = 7, reset_gpio_num = 5, reset_level = True, x_gap = 0, y_gap = 0,
         fb_bits_per_pixel = 16, madctl_val = 0x68, colmod_cal = 0x55\<rparr>,
             [Io_tx_param 7 0x36 [0xA8], Io_tx_param 7 0x36 [0x68]])"
    by (simp add: panel_st7789_mirror_def panel_st7789_swap_xy_def esp_lcd_panel_io_tx_param_def
        collab_def LCD_CMD_MX_BIT_def LCD_CMD_MY_BIT_def LCD_CMD_MV_BIT_def LCD_CMD_MADCTL_def)
  show ?thesis
    using mirror_then_swap_either_order [of "\<lambda>h e. ESP_OK"
      "\<lparr>io = 7, reset_gpio_num = 5, reset_level = True, x_gap = 0, y_gap = 0,
         fb_bits_per_pixel = 16, madctl_val = 0x88, colmod_cal = 0x55\<rparr>" "[]"]
    unfolding e1 e2 by auto
qed

section \<open>Drawing: addresses and payload length\<close>

lemma ff_mask: "(0xFF :: c_int) = mask 8"
  by (simp add: mask_eq_exp_minus_1)

lemma lo_byte: "(ucast ((v :: c_int) AND 0xFF) :: uint8_t) = word_of_nat (unat v mod 256)"
proof -
  have "(256 :: nat) = 2 ^ 8" by simp
  then have m: "unat v mod 256 = take_bit 8 (unat v)"
    by (simp only: take_bit_eq_mod)
  show ?thesis
    unfolding ff_mask m
    by (rule bit_word_eqI) (auto simp add: bit_simps)
qed

lemma hi_byte: "(ucast (signed_drop_bit 8 (v :: c_int) AND 0xFF) :: uint8_t) = word_of_nat (unat v mod 65536 div 256)"
proof -
  have "(256 :: nat) = 2 ^ 8" "(65536 :: nat) = 2 ^ 16" by simp_all
  then have m: "unat v mod 65536 div 256 = drop_bit 8 (take_bit 16 (unat v))"
    by (simp only: take_bit_eq_mod drop_bit_eq_div)
  show ?thesis
    unfolding ff_mask m
    by (rule bit_word_eqI) (auto simp add: bit_simps)
qed

lemma c_div_product_exact:
  fixes xs xe ys ye :: c_int and p :: uint8_t
  assumes lt: "sint xs < sint xe" "sint ys < sint ye"
    and bound: "(sint xe - sint xs) * (sint ye - sint ys) * uint p < 2 ^ 31"
  shows "uint (c_div ((xe - xs) * (ye - ys) * ucast p) 8) =
           (sint xe - sint xs) * (sint ye - sint ys) * uint p div 8"
proof -
  define P where "P = (sint xe - sint xs) * (sint ye - sint ys) * uint p"
  have P0: "0 \<le> P"
    unfolding P_def using lt by simp
  have P1: "P < 2 ^ 31"
    unfolding P_def using bound .
  have u: "(word_of_int (uint p) :: c_int) = ucast p"
    by (simp only: ucast_eq)
  have w: "(xe - xs) * (ye - ys) * ucast p = (word_of_int P :: c_int)"
    unfolding P_def by (simp only: of_int_mult of_int_diff of_int_sint u scast_id)
  have s: "sint (word_of_int P :: c_int) = P"
    using P0 P1 by (simp add: signed_of_int signed_take_bit_int_eq_self)
  have d: "P sdiv 8 = P div 8"
    using P0 by (simp add: signed_divide_int_def sgn_if)
  have "c_div ((xe - xs) * (ye - ys) * ucast p) 8 = word_of_int (P div 8)"
    unfolding c_div_def w s d[symmetric] by simp
  moreover have "0 \<le> P div 8" "P div 8 < 2 ^ 32"
    using P0 P1 by simp_all
  ultimately have "uint (c_div ((xe - xs) * (ye - ys) * ucast p) 8) = P div 8"
    by (simp add: uint_word_of_int)
  then show ?thesis unfolding P_def .
qed

lemma be16_bytes_value:
  "map unat (be16_bytes v) = [unat v mod 65536 div 256, unat v mod 256]"
proof -
  have "unat v mod 65536 div 256 < 256"
    by (simp add: less_mult_imp_div_less)
  then show ?thesis
    by (simp add: be16_bytes_def unat_of_nat)
qed

lemma be16_bytes_of_int:
  assumes "0 \<le> k" and "k < 65536"
  shows "map unat (be16_bytes (word_of_int k)) = [nat k div 256, nat k mod 256]"
proof -
  have "uint (word_of_int k :: c_int) = k"
    using assms by (simp add: uint_word_of_int)
  then have "unat (word_of_int k :: c_int) = nat k"
    by (simp only: unat_eq_nat_uint)
  moreover have "nat k mod 65536 = nat k"
    using assms by simp
  ultimately show ?thesis
    by (simp add: be16_bytes_value)
qed

lemma shifted_start: "(a :: c_int) + g = word_of_int (sint a + sint g)"
  by (simp only: of_int_add of_int_sint scast_id)

lemma shifted_end: "(a :: c_int) + g - 1 = word_of_int (sint a + sint g - 1)"
  by (simp only: of_int_add of_int_diff of_int_sint scast_id of_int_1)

lemma address_bytes_in_range:
  fixes s e g :: c_int
  assumes "sint s < sint e" and "0 \<le> sint s + sint g" and "sint e + sint g \<le> 65536"
  shows "map unat (be16_bytes (s + g) @ be16_bytes (e + g - 1)) =
           [nat (sint s + sint g) div 256, nat (sint s + sint g) mod 256,
            nat (sint e + sint g - 1) div 256, nat (sint e + sint g - 1) mod 256]"
proof -
  have "map unat (be16_bytes (s + g)) = [nat (sint s + sint g) div 256, nat (sint s + sint g) mod 256]"
    unfolding shifted_start [of s g] using assms by (intro be16_bytes_of_int) simp_all
  moreover have "map unat (be16_bytes (e + g - 1)) =
      [nat (sint e + sint g - 1) div 256, nat (sint e + sint g - 1) mod 256]"
    unfolding shifted_end [of e g] using assms by (intro be16_bytes_of_int) simp_all
  ultimately show ?thesis by simp
qed

lemma gap_cancels: "(e + g) - ((s :: c_int) + g) = e - s"
  by simp

lemma draw_bitmap_unfold:
  assumes "x_start <s x_end" and "y_start <s y_end"
  shows "panel_st7789_draw_bitmap en st x_start y_start x_end y_end color_data tr =
     (let caset = Io_tx_param (io st) 0x2A
                    (be16_bytes (x_start + x_gap st) @ be16_bytes (x_end + x_gap st - 1));
          raset = Io_tx_param (io st) 0x2B
                    (be16_bytes (y_start + y_gap st) @ be16_bytes (y_end + y_gap st - 1));
          ramwr = Io_tx_color (io st) 0x2C color_data
                    (c_div ((x_end - x_start) * (y_end - y_start) * ucast (fb_bits_per_pixel st)) 8)
      in if en tr caset \<noteq> ESP_OK then (Returns (en tr caset), tr @ [caset])
         else if en (tr @ [caset]) raset \<noteq> ESP_OK
           then (Returns (en (tr @ [caset]) raset), tr @ [caset, raset])
         else (Returns (en (tr @ [caset, raset]) ramwr), tr @ [caset, raset, ramwr]))"
proof -
  have cancel: "x_end + x_gap st - (x_start + x_gap st) = x_end - x_start"
    "y_end + y_gap st - (y_start + y_gap st) = y_end - y_start"
    by (rule gap_cancels)+
  show ?thesis
    using assms
    unfolding panel_st7789_draw_bitmap_def esp_lcd_panel_io_tx_param_def
      esp_lcd_panel_io_tx_color_def collab_def LCD_CMD_CASET_def LCD_CMD_RASET_def
      LCD_CMD_RAMWR_def hi_byte cancel be16_bytes_def Let_def
    unfolding lo_byte
    by simp
qed

lemma tx_color_lengths_append:
  "tx_color_lengths (es @ fs) = tx_color_lengths es @ tx_color_lengths fs"
  by (induction es rule: tx_color_lengths.induct) simp_all

text \<open>
  Claim C2. A drawing whose region satisfies \<open>x_start < x_end\<close> and \<open>y_start < y_end\<close>
  adds the stored gaps to the coordinates and sends, in this order: the command \<open>0x2A\<close>
  with the four bytes of the shifted \<open>x_start\<close> and of the shifted \<open>x_end - 1\<close>, each as a
  big-endian 16-bit number; the command \<open>0x2B\<close> with the same for the rows; the pixel
  write \<open>0x2C\<close> with the caller's data and the length
  \<open>(x_end - x_start) * (y_end - y_start) * fb_bits_per_pixel / 8\<close>. A command that the
  transport refuses ends the drawing with the transport's code. The arithmetic is that
  of \<^verbatim>\<open>int\<close>; where the shifted coordinates lie between 0 and 65536 the bytes are those of
  the integer sums, and where the product fits into an \<^verbatim>\<open>int\<close> the length is the integer
  quotient.
\<close>

theorem draw_bitmap_commands:
  assumes "sint x_start < sint x_end" and "sint y_start < sint y_end"
  shows
    "panel_st7789_draw_bitmap en st x_start y_start x_end y_end color_data tr =
       (let caset = Io_tx_param (io st) 0x2A
                      (be16_bytes (x_start + x_gap st) @ be16_bytes (x_end + x_gap st - 1));
            raset = Io_tx_param (io st) 0x2B
                      (be16_bytes (y_start + y_gap st) @ be16_bytes (y_end + y_gap st - 1));
            ramwr = Io_tx_color (io st) 0x2C color_data
                      (c_div ((x_end - x_start) * (y_end - y_start) * ucast (fb_bits_per_pixel st)) 8)
        in if en tr caset \<noteq> ESP_OK then (Returns (en tr caset), tr @ [caset])
           else if en (tr @ [caset]) raset \<noteq> ESP_OK
             then (Returns (en (tr @ [caset]) raset), tr @ [caset, raset])
           else (Returns (en (tr @ [caset, raset]) ramwr), tr @ [caset, raset, ramwr]))
     \<and> (\<forall>v. map unat (be16_bytes v) = [unat v mod 65536 div 256, unat v mod 256])
     \<and> (0 \<le> sint x_start + sint (x_gap st) \<and> sint x_end + sint (x_gap st) \<le> 65536 \<longrightarrow>
          map unat (be16_bytes (x_start + x_gap st) @ be16_bytes (x_end + x_gap st - 1)) =
            [nat (sint x_start + sint (x_gap st)) div 256, nat (sint x_start + sint (x_gap st)) mod 256,
             nat (sint x_end + sint (x_gap st) - 1) div 256, nat (sint x_end + sint (x_gap st) - 1) mod 256])
     \<and> (0 \<le> sint y_start + sint (y_gap st) \<and> sint y_end + sint (y_gap st) \<le> 65536 \<longrightarrow>
          map unat (be16_bytes (y_start + y_gap st) @ be16_bytes (y_end + y_gap st - 1)) =
            [nat (sint y_start + sint (y_gap st)) div 256, nat (sint y_start + sint (y_gap st)) mod 256,
             nat (sint y_end + sint (y_gap st) - 1) div 256, nat (sint y_end + sint (y_gap st) - 1) mod 256])
     \<and> ((sint x_end - sint x_start) * (sint y_end - sint y_start) * uint (fb_bits_per_pixel st) < 2 ^ 31 \<longrightarrow>
          uint (c_div ((x_end - x_start) * (y_end - y_start) * ucast (fb_bits_per_pixel st)) 8) =
            (sint x_end - sint x_start) * (sint y_end - sint y_start) * uint (fb_bits_per_pixel st) div 8)"
proof -
  have pre: "x_start <s x_end" "y_start <s y_end"
    using assms by (simp_all add: word_sless_alt)
  show ?thesis
    using draw_bitmap_unfold [OF pre] be16_bytes_value c_div_product_exact [OF assms]
      address_bytes_in_range [OF assms(1)] address_bytes_in_range [OF assms(2)]
    by blast
qed

theorem draw_bitmap_commands_witness:
  "panel_st7789_draw_bitmap (\<lambda>h e. ESP_OK)
      \<lparr>io = 7, reset_gpio_num = 5, reset_level = True, x_gap = 0, y_gap = 0,
        fb_bits_per_pixel = 16, madctl_val = 0, colmod_cal = 0x55\<rparr> 0 0 10 20 [0x12, 0x34] []
     = (Returns ESP_OK,
        [Io_tx_param 7 0x2A [0x00, 0x00, 0x00, 0x09], Io_tx_param 7 0x2B [0x00, 0x00, 0x00, 0x13],
         Io_tx_color 7 0x2C [0x12, 0x34] 400])
   \<and> panel_st7789_draw_bitmap (\<lambda>h e. ESP_OK)
      \<lparr>io = 7, reset_gpio_num = 5, reset_level = True, x_gap = 3, y_gap = 5,
        fb_bits_per_pixel = 16, madctl_val = 0, colmod_cal = 0x55\<rparr> 0 0 10 10 [0x12, 0x34] []
     = (Returns ESP_OK,
        [Io_tx_param 7 0x2A [0x00, 0x03, 0x00, 0x0C], Io_tx_param 7 0x2B [0x00, 0x05, 0x00, 0x0E],
         Io_tx_color 7 0x2C [0x12, 0x34] 200])
   \<and> panel_st7789_draw_bitmap (\<lambda>h e. case e of Io_tx_param i c p \<Rightarrow> if c = 0x2B then ESP_FAIL else ESP_OK
                                         | _ \<Rightarrow> ESP_OK)
      \<lparr>io = 7, reset_gpio_num = 5, reset_level = True, x_gap = 0, y_gap = 0,
        fb_bits_per_pixel = 24, madctl_val = 0, colmod_cal = 0x66\<rparr> 256 0 320 240 [] []
     = (Returns ESP_FAIL,
        [Io_tx_param 7 0x2A [0x01, 0x00, 0x01, 0x3F], Io_tx_param 7 0x2B [0x00, 0x00, 0x00, 0xEF]])"
  using draw_bitmap_commands [of 0 10 0 20 "\<lambda>h e. ESP_OK"
      "\<lparr>io = 7, reset_gpio_num = 5, reset_level = True, x_gap = 0, y_gap = 0,
        fb_bits_per_pixel = 16, madctl_val = 0, colmod_cal = 0x55\<rparr>" "[0x12, 0x34]" "[]"]
    draw_bitmap_commands [of 0 10 0 10 "\<lambda>h e. ESP_OK"
      "\<lparr>io = 7, reset_gpio_num = 5, reset_level = True, x_gap = 3, y_gap = 5,
        fb_bits_per_pixel = 16, madctl_val = 0, colmod_cal = 0x55\<rparr>" "[0x12, 0x34]" "[]"]
    draw_bitmap_commands [of 256 320 0 240
      "\<lambda>h e. case e of Io_tx_param i c p \<Rightarrow> if c = 0x2B then ESP_FAIL else ESP_OK | _ \<Rightarrow> ESP_OK"
      "\<lparr>io = 7, reset_gpio_num = 5, reset_level = True, x_gap = 0, y_gap = 0,
        fb_bits_per_pixel = 24, madctl_val = 0, colmod_cal = 0x66\<rparr>" "[]" "[]"]
  by (simp add: be16_bytes_def c_div_def)

text \<open>
  Claim C10. The length of the pixel write does not depend on the gaps: whatever \<open>x_gap\<close>
  and \<open>y_gap\<close> are stored, a drawing that satisfies the precondition sends at most one
  pixel write, exactly one when it returns \<open>ESP_OK\<close>, and its length is
  \<open>(x_end - x_start) * (y_end - y_start) * fb_bits_per_pixel / 8\<close> of the caller's
  coordinates, because the gap added to both ends of an axis cancels in the difference.
\<close>

theorem draw_bitmap_length_ignores_gap:
  assumes "sint x_start < sint x_end" and "sint y_start < sint y_end"
  shows
    "(fst (panel_st7789_draw_bitmap en (st\<lparr>x_gap := gx, y_gap := gy\<rparr>)
             x_start y_start x_end y_end color_data tr) = Returns ESP_OK \<longrightarrow>
        tx_color_lengths (snd (panel_st7789_draw_bitmap en (st\<lparr>x_gap := gx, y_gap := gy\<rparr>)
             x_start y_start x_end y_end color_data tr)) =
          tx_color_lengths tr @
            [c_div ((x_end - x_start) * (y_end - y_start) * ucast (fb_bits_per_pixel st)) 8])
     \<and> (tx_color_lengths (snd (panel_st7789_draw_bitmap en (st\<lparr>x_gap := gx, y_gap := gy\<rparr>)
             x_start y_start x_end y_end color_data tr)) = tx_color_lengths tr
        \<or> tx_color_lengths (snd (panel_st7789_draw_bitmap en (st\<lparr>x_gap := gx, y_gap := gy\<rparr>)
             x_start y_start x_end y_end color_data tr)) =
          tx_color_lengths tr @
            [c_div ((x_end - x_start) * (y_end - y_start) * ucast (fb_bits_per_pixel st)) 8])
     \<and> c_div (((x_end + gx) - (x_start + gx)) * ((y_end + gy) - (y_start + gy))
               * ucast (fb_bits_per_pixel st)) 8 =
         c_div ((x_end - x_start) * (y_end - y_start) * ucast (fb_bits_per_pixel st)) 8
     \<and> ((sint x_end - sint x_start) * (sint y_end - sint y_start) * uint (fb_bits_per_pixel st) < 2 ^ 31 \<longrightarrow>
          uint (c_div ((x_end - x_start) * (y_end - y_start) * ucast (fb_bits_per_pixel st)) 8) =
            (sint x_end - sint x_start) * (sint y_end - sint y_start) * uint (fb_bits_per_pixel st) div 8)"
proof -
  have pre: "x_start <s x_end" "y_start <s y_end"
    using assms by (simp_all add: word_sless_alt)
  let ?d = "panel_st7789_draw_bitmap en (st\<lparr>x_gap := gx, y_gap := gy\<rparr>)
             x_start y_start x_end y_end color_data tr"
  let ?L = "c_div ((x_end - x_start) * (y_end - y_start) * ucast (fb_bits_per_pixel st)) 8"
  have ok: "fst ?d = Returns ESP_OK \<longrightarrow> tx_color_lengths (snd ?d) = tx_color_lengths tr @ [?L]"
    unfolding draw_bitmap_unfold [OF pre]
    by (simp add: Let_def tx_color_lengths_append)
  have any: "tx_color_lengths (snd ?d) = tx_color_lengths tr
             \<or> tx_color_lengths (snd ?d) = tx_color_lengths tr @ [?L]"
    unfolding draw_bitmap_unfold [OF pre]
    by (simp add: Let_def tx_color_lengths_append)
  show ?thesis
    using ok any c_div_product_exact [OF assms, of "fb_bits_per_pixel st"]
    by (simp only: gap_cancels) blast
qed

theorem draw_bitmap_length_ignores_gap_witness:
  "tx_color_lengths (snd (panel_st7789_draw_bitmap (\<lambda>h e. ESP_OK)
      (\<lparr>io = 7, reset_gpio_num = 5, reset_level = True, x_gap = 0, y_gap = 0,
         fb_bits_per_pixel = 16, madctl_val = 0, colmod_cal = 0x55\<rparr>\<lparr>x_gap := 3, y_gap := 5\<rparr>)
      0 0 10 10 [] [])) = [200]
   \<and> tx_color_lengths (snd (panel_st7789_draw_bitmap (\<lambda>h e. ESP_OK)
      (\<lparr>io = 7, reset_gpio_num = 5, reset_level = True, x_gap = 0, y_gap = 0,
         fb_bits_per_pixel = 16, madctl_val = 0, colmod_cal = 0x55\<rparr>\<lparr>x_gap := - 7, y_gap := 1000\<rparr>)
      0 0 10 10 [] [])) = [200]
   \<and> uint (c_div ((10 - 0) * (10 - 0) * ucast (16 :: uint8_t)) 8) = 200"
proof -
  have r1: "fst (panel_st7789_draw_bitmap (\<lambda>h e. ESP_OK)
      (\<lparr>io = 7, reset_gpio_num = 5, reset_level = True, x_gap = 0, y_gap = 0,
         fb_bits_per_pixel = 16, madctl_val = 0, colmod_cal = 0x55\<rparr>\<lparr>x_gap := 3, y_gap := 5\<rparr>)
      0 0 10 10 [] []) = Returns ESP_OK"
    by (simp add: panel_st7789_draw_bitmap_def esp_lcd_panel_io_tx_param_def
        esp_lcd_panel_io_tx_color_def collab_def word_sless_alt)
  have r2: "fst (panel_st7789_draw_bitmap (\<lambda>h e. ESP_OK)
      (\<lparr>io = 7, reset_gpio_num = 5, reset_level = True, x_gap = 0, y_gap = 0,
         fb_bits_per_pixel = 16, madctl_val = 0, colmod_cal = 0x55\<rparr>\<lparr>x_gap := - 7, y_gap := 1000\<rparr>)
      0 0 10 10 [] []) = Returns ESP_OK"
    by (simp add: panel_st7789_draw_bitmap_def esp_lcd_panel_io_tx_param_def
        esp_lcd_panel_io_tx_color_def collab_def word_sless_alt)
  show ?thesis
    using r1 r2
      draw_bitmap_length_ignores_gap [where x_start = 0 and x_end = 10 and y_start = 0
        and y_end = 10 and en = "\<lambda>h e. ESP_OK" and gx = 3 and gy = 5
        and color_data = "[]" and tr = "[]"
        and st = "\<lparr>io = 7, reset_gpio_num = 5, reset_level = True, x_gap = 0, y_gap = 0,
          fb_bits_per_pixel = 16, madctl_val = 0, colmod_cal = 0x55\<rparr>"]
      draw_bitmap_length_ignores_gap [where x_start = 0 and x_end = 10 and y_start = 0
        and y_end = 10 and en = "\<lambda>h e. ESP_OK" and gx = "- 7" and gy = 1000
        and color_data = "[]" and tr = "[]"
        and st = "\<lparr>io = 7, reset_gpio_num = 5, reset_level = True, x_gap = 0, y_gap = 0,
          fb_bits_per_pixel = 16, madctl_val = 0, colmod_cal = 0x55\<rparr>"]
    by (simp add: c_div_def)
qed

end
